theory Spec2Isabelle
  imports Complex_Main
begin

section \<open>JavaScript numbers\<close>

text \<open>
  The viewer computes with JavaScript numbers. They are modelled as exact reals extended
  with the three non-finite values, so that every \<^verbatim>\<open>Number.isFinite\<close> test and every
  comparison that is false on NaN is a real branch of the model. Arithmetic on finite
  values is exact: rounding, overflow to infinity and the sign of zero are not modelled.
  A read past the end of a typed array is \<^verbatim>\<open>undefined\<close>: it is kept as \<open>None\<close> where the
  source hands it to a constructor with default arguments, and is NaN where it enters
  arithmetic or is stored into a \<^verbatim>\<open>Float32Array\<close>.
\<close>

datatype number = Fin real | PosInf | NegInf | NaN

fun isFinite :: "number \<Rightarrow> bool" where
  "isFinite (Fin a) = True"
| "isFinite PosInf = False"
| "isFinite NegInf = False"
| "isFinite NaN = False"

fun nneg :: "number \<Rightarrow> number" where
  "nneg (Fin a) = Fin (- a)"
| "nneg PosInf = NegInf"
| "nneg NegInf = PosInf"
| "nneg NaN = NaN"

fun nadd :: "number \<Rightarrow> number \<Rightarrow> number" where
  "nadd NaN b = NaN"
| "nadd a NaN = NaN"
| "nadd (Fin a) (Fin b) = Fin (a + b)"
| "nadd PosInf NegInf = NaN"
| "nadd NegInf PosInf = NaN"
| "nadd PosInf b = PosInf"
| "nadd a PosInf = PosInf"
| "nadd NegInf b = NegInf"
| "nadd a NegInf = NegInf"

definition nsub :: "number \<Rightarrow> number \<Rightarrow> number" where
  "nsub a b = nadd a (nneg b)"

fun nmul :: "number \<Rightarrow> number \<Rightarrow> number" where
  "nmul NaN b = NaN"
| "nmul a NaN = NaN"
| "nmul (Fin a) (Fin b) = Fin (a * b)"
| "nmul (Fin a) PosInf = (if a = 0 then NaN else if 0 < a then PosInf else NegInf)"
| "nmul (Fin a) NegInf = (if a = 0 then NaN else if 0 < a then NegInf else PosInf)"
| "nmul PosInf (Fin b) = (if b = 0 then NaN else if 0 < b then PosInf else NegInf)"
| "nmul NegInf (Fin b) = (if b = 0 then NaN else if 0 < b then NegInf else PosInf)"
| "nmul PosInf PosInf = PosInf"
| "nmul PosInf NegInf = NegInf"
| "nmul NegInf PosInf = NegInf"
| "nmul NegInf NegInf = PosInf"

text \<open>Division; a zero divisor is taken as \<^verbatim>\<open>+0\<close>.\<close>

fun ndiv :: "number \<Rightarrow> number \<Rightarrow> number" where
  "ndiv NaN b = NaN"
| "ndiv a NaN = NaN"
| "ndiv (Fin a) (Fin b) =
     (if b = 0 then (if a = 0 then NaN else if 0 < a then PosInf else NegInf)
      else Fin (a / b))"
| "ndiv (Fin a) PosInf = Fin 0"
| "ndiv (Fin a) NegInf = Fin 0"
| "ndiv PosInf (Fin b) = (if 0 \<le> b then PosInf else NegInf)"
| "ndiv NegInf (Fin b) = (if 0 \<le> b then NegInf else PosInf)"
| "ndiv a b = NaN"

fun nle :: "number \<Rightarrow> number \<Rightarrow> bool" where
  "nle NaN b = False"
| "nle a NaN = False"
| "nle (Fin a) (Fin b) = (a \<le> b)"
| "nle NegInf b = True"
| "nle a PosInf = True"
| "nle a b = False"

fun nlt :: "number \<Rightarrow> number \<Rightarrow> bool" where
  "nlt NaN b = False"
| "nlt a NaN = False"
| "nlt (Fin a) (Fin b) = (a < b)"
| "nlt PosInf b = False"
| "nlt a NegInf = False"
| "nlt a b = True"

definition nge :: "number \<Rightarrow> number \<Rightarrow> bool" where
  "nge a b = nle b a"

definition ngt :: "number \<Rightarrow> number \<Rightarrow> bool" where
  "ngt a b = nlt b a"

fun Math_abs :: "number \<Rightarrow> number" where
  "Math_abs (Fin a) = Fin \<bar>a\<bar>"
| "Math_abs PosInf = PosInf"
| "Math_abs NegInf = PosInf"
| "Math_abs NaN = NaN"

fun Math_sqrt :: "number \<Rightarrow> number" where
  "Math_sqrt (Fin a) = (if a < 0 then NaN else Fin (sqrt a))"
| "Math_sqrt PosInf = PosInf"
| "Math_sqrt NegInf = NaN"
| "Math_sqrt NaN = NaN"

definition Math_max2 :: "number \<Rightarrow> number \<Rightarrow> number" where
  "Math_max2 a b = (if a = NaN \<or> b = NaN then NaN else if nle a b then b else a)"

definition Math_max :: "number \<Rightarrow> number \<Rightarrow> number \<Rightarrow> number" where
  "Math_max a b c = Math_max2 (Math_max2 a b) c"

section \<open>Vectors (three.js \<^verbatim>\<open>Vector3\<close>, \<^verbatim>\<open>Vector2\<close>)\<close>

datatype vec3 = Vector3 (x3: number) (y3: number) (z3: number)

datatype vec2 = Vector2 (x2: number) (y2: number)

datatype axis = AxisX | AxisY | AxisZ

text \<open>\<^verbatim>\<open>v[axis]\<close> for \<^verbatim>\<open>axis\<close> one of \<^verbatim>\<open>'x'\<close>, \<^verbatim>\<open>'y'\<close>, \<^verbatim>\<open>'z'\<close>.\<close>

fun component :: "vec3 \<Rightarrow> axis \<Rightarrow> number" where
  "component v AxisX = x3 v"
| "component v AxisY = y3 v"
| "component v AxisZ = z3 v"

definition subVectors :: "vec3 \<Rightarrow> vec3 \<Rightarrow> vec3" where
  "subVectors a b = Vector3 (nsub (x3 a) (x3 b)) (nsub (y3 a) (y3 b)) (nsub (z3 a) (z3 b))"

definition crossVectors :: "vec3 \<Rightarrow> vec3 \<Rightarrow> vec3" where
  "crossVectors a b =
     Vector3 (nsub (nmul (y3 a) (z3 b)) (nmul (z3 a) (y3 b)))
             (nsub (nmul (z3 a) (x3 b)) (nmul (x3 a) (z3 b)))
             (nsub (nmul (x3 a) (y3 b)) (nmul (y3 a) (x3 b)))"

definition length3 :: "vec3 \<Rightarrow> number" where
  "length3 v =
     Math_sqrt (nadd (nadd (nmul (x3 v) (x3 v)) (nmul (y3 v) (y3 v))) (nmul (z3 v) (z3 v)))"

text \<open>\<^verbatim>\<open>a.lerp(b, t)\<close>: each component becomes \<^verbatim>\<open>a + (b - a) * t\<close>.\<close>

definition lerpNum :: "number \<Rightarrow> number \<Rightarrow> number \<Rightarrow> number" where
  "lerpNum a b t = nadd a (nmul (nsub b a) t)"

definition lerp3 :: "vec3 \<Rightarrow> vec3 \<Rightarrow> number \<Rightarrow> vec3" where
  "lerp3 a b t = Vector3 (lerpNum (x3 a) (x3 b) t) (lerpNum (y3 a) (y3 b) t) (lerpNum (z3 a) (z3 b) t)"

definition lerp2 :: "vec2 \<Rightarrow> vec2 \<Rightarrow> number \<Rightarrow> vec2" where
  "lerp2 a b t = Vector2 (lerpNum (x2 a) (x2 b) t) (lerpNum (y2 a) (y2 b) t)"

section \<open>The polygon clipper of \<^verbatim>\<open>clipMeshKeepInside\<close>\<close>

definition EPS :: number where
  "EPS = Fin (1 / 10000000)"

text \<open>
  A clip-time vertex: world position \<^verbatim>\<open>pw\<close>, position in the box frame \<^verbatim>\<open>pb\<close>, and the
  \<^verbatim>\<open>uv\<close> property, which is present exactly when the source geometry has a uv attribute.
\<close>

record vertex =
  pw :: vec3
  pb :: vec3
  uv :: "vec2 option"

record plane =
  plane_axis :: axis
  plane_s :: number
  plane_limit :: number

text \<open>
  \<^verbatim>\<open>intersect(A, B, axis, limit)\<close>. The parameter \<^verbatim>\<open>t\<close> is computed in three steps as in
  the source: the quotient or the midpoint fallback, the \<^verbatim>\<open>Number.isFinite\<close> repair, the
  clamp.
\<close>

definition intersect_t :: "vertex \<Rightarrow> vertex \<Rightarrow> axis \<Rightarrow> number \<Rightarrow> number" where
  "intersect_t A B ax limit =
     (let a = component (pb A) ax;
          b = component (pb B) ax;
          denom = nsub b a;
          t0 = (if nlt (Math_abs denom) EPS then Fin (1 / 2) else ndiv (nsub limit a) denom);
          t1 = (if \<not> isFinite t0 then Fin (1 / 2) else t0)
      in if nlt t1 (Fin 0) then Fin 0 else if ngt t1 (Fin 1) then Fin 1 else t1)"

text \<open>
  \<^verbatim>\<open>v.uv\<close> where the source reads it under \<^verbatim>\<open>hasUV\<close>. Every vertex built by \<^verbatim>\<open>makeV\<close> or
  by \<^verbatim>\<open>intersect\<close> carries a uv then (lemma \<open>clipTriangle_uv\<close>), so the \<open>None\<close> case, where
  the source would raise a TypeError, is not reached from \<^verbatim>\<open>clipMeshKeepInside\<close>.
\<close>

definition uv_of :: "vertex \<Rightarrow> vec2" where
  "uv_of v = (case uv v of Some u \<Rightarrow> u | None \<Rightarrow> Vector2 NaN NaN)"

definition intersect :: "bool \<Rightarrow> vertex \<Rightarrow> vertex \<Rightarrow> axis \<Rightarrow> number \<Rightarrow> vertex" where
  "intersect hasUV A B ax limit =
     (let t = intersect_t A B ax limit in
      \<lparr> pw = lerp3 (pw A) (pw B) t,
        pb = lerp3 (pb A) (pb B) t,
        uv = (if hasUV then Some (lerp2 (uv_of A) (uv_of B) t) else None) \<rparr>)"

definition getCoord :: "plane \<Rightarrow> vertex \<Rightarrow> number" where
  "getCoord pl p =
     (if plane_axis pl = AxisX then x3 (pb p)
      else if plane_axis pl = AxisY then y3 (pb p)
      else z3 (pb p))"

definition isInside :: "plane \<Rightarrow> vertex \<Rightarrow> bool" where
  "isInside pl p = nle (nmul (plane_s pl) (getCoord pl p)) (nadd (plane_limit pl) EPS)"

text \<open>The \<^verbatim>\<open>for\<close> loop of \<^verbatim>\<open>clipByPlane\<close>: index \<open>i\<close>, accumulator \<open>res\<close>.\<close>

function clipByPlane_loop :: "bool \<Rightarrow> vertex list \<Rightarrow> plane \<Rightarrow> nat \<Rightarrow> vertex list \<Rightarrow> vertex list" where
  "clipByPlane_loop hasUV poly pl i res =
     (if i < length poly then
        (let cur = poly ! i;
             prev = poly ! ((i + length poly - 1) mod length poly);
             curIn = isInside pl cur;
             prevIn = isInside pl prev
         in clipByPlane_loop hasUV poly pl (i + 1)
              (if curIn \<and> prevIn then res @ [cur]
               else if prevIn \<and> \<not> curIn then
                 res @ [intersect hasUV prev cur (plane_axis pl) (plane_limit pl)]
               else if \<not> prevIn \<and> curIn then
                 res @ [intersect hasUV prev cur (plane_axis pl) (plane_limit pl)] @ [cur]
               else res))
      else res)"
  by pat_completeness auto
termination
  by (relation "measure (\<lambda>(hasUV, poly, pl, i, res). length poly - i)") auto

definition clipByPlane :: "bool \<Rightarrow> vertex list \<Rightarrow> plane \<Rightarrow> vertex list" where
  "clipByPlane hasUV poly pl =
     (if length poly = 0 then [] else clipByPlane_loop hasUV poly pl 0 [])"

subsection \<open>Geometries and matrices\<close>

text \<open>
  A \<^verbatim>\<open>BufferGeometry\<close>: the optional index, the flat array of the \<^verbatim>\<open>position\<close> attribute
  (item size 3) and the flat array of the optional \<^verbatim>\<open>uv\<close> attribute (item size 2). The
  arrays hold numbers; the rounding of \<^verbatim>\<open>Float32Array\<close> is not modelled.
\<close>

record geometry =
  geom_index :: "nat list option"
  geom_position :: "number list"
  geom_uv :: "number list option"

text \<open>Reading a typed array, \<^verbatim>\<open>array[i]\<close>: out of range gives \<^verbatim>\<open>undefined\<close>, here \<open>None\<close>.\<close>

definition readArray :: "number list \<Rightarrow> nat \<Rightarrow> number option" where
  "readArray xs i = (if i < length xs then Some (xs ! i) else None)"

text \<open>
  \<^verbatim>\<open>new THREE.Vector3(x, y, z)\<close> and \<^verbatim>\<open>new THREE.Vector2(x, y)\<close>: the constructors have the
  default arguments \<^verbatim>\<open>x = 0, y = 0, z = 0\<close>, which JavaScript takes for an argument that is
  \<^verbatim>\<open>undefined\<close>.
\<close>

definition argOrZero :: "number option \<Rightarrow> number" where
  "argOrZero a = (case a of Some x \<Rightarrow> x | None \<Rightarrow> Fin 0)"

definition newVector3 :: "number option \<Rightarrow> number option \<Rightarrow> number option \<Rightarrow> vec3" where
  "newVector3 a b c = Vector3 (argOrZero a) (argOrZero b) (argOrZero c)"

definition newVector2 :: "number option \<Rightarrow> number option \<Rightarrow> vec2" where
  "newVector2 a b = Vector2 (argOrZero a) (argOrZero b)"

text \<open>An array element copied into a \<^verbatim>\<open>Float32Array\<close>: \<^verbatim>\<open>undefined\<close> is stored as NaN.\<close>

definition getItem :: "number list \<Rightarrow> nat \<Rightarrow> number" where
  "getItem xs i = (case readArray xs i of Some x \<Rightarrow> x | None \<Rightarrow> NaN)"

text \<open>
  A \<^verbatim>\<open>Matrix4\<close> is kept as the point map \<^verbatim>\<open>p.applyMatrix4(m)\<close> together with the point map
  of its inverse, so that \<^verbatim>\<open>invert\<close> exchanges the two. Nothing is assumed about the two
  maps in the definitions.
\<close>

record matrix4 =
  applyMatrix4 :: "vec3 \<Rightarrow> vec3"
  applyInverse :: "vec3 \<Rightarrow> vec3"

definition invert :: "matrix4 \<Rightarrow> matrix4" where
  "invert m = \<lparr> applyMatrix4 = applyInverse m, applyInverse = applyMatrix4 m \<rparr>"

text \<open>
  \<^verbatim>\<open>BufferGeometry.toNonIndexed\<close> of three.js: every attribute is expanded along the index,
  item by item.
\<close>

definition convertBufferAttribute :: "number list \<Rightarrow> nat \<Rightarrow> nat list \<Rightarrow> number list" where
  "convertBufferAttribute arr itemSize indices =
     concat (map (\<lambda>i. map (\<lambda>j. getItem arr (i * itemSize + j)) [0..<itemSize]) indices)"

definition toNonIndexed :: "geometry \<Rightarrow> geometry" where
  "toNonIndexed g =
     (case geom_index g of
        None \<Rightarrow> g
      | Some indices \<Rightarrow>
          \<lparr> geom_index = None,
            geom_position = convertBufferAttribute (geom_position g) 3 indices,
            geom_uv = map_option (\<lambda>u. convertBufferAttribute u 2 indices) (geom_uv g) \<rparr>)"

subsection \<open>\<^verbatim>\<open>clipMeshKeepInside\<close>\<close>

definition insideX :: "vec3 \<Rightarrow> vec3 \<Rightarrow> bool" where
  "insideX half v \<longleftrightarrow>
     nle (x3 v) (nadd (x3 half) EPS) \<and> nge (x3 v) (nsub (nneg (x3 half)) EPS)"

definition insideY :: "vec3 \<Rightarrow> vec3 \<Rightarrow> bool" where
  "insideY half v \<longleftrightarrow>
     nle (y3 v) (nadd (y3 half) EPS) \<and> nge (y3 v) (nsub (nneg (y3 half)) EPS)"

definition insideZ :: "vec3 \<Rightarrow> vec3 \<Rightarrow> bool" where
  "insideZ half v \<longleftrightarrow>
     nle (z3 v) (nadd (z3 half) EPS) \<and> nge (z3 v) (nsub (nneg (z3 half)) EPS)"

definition planes :: "vec3 \<Rightarrow> plane list" where
  "planes half =
     [ \<lparr> plane_axis = AxisX, plane_s = Fin 1, plane_limit = x3 half \<rparr>,
       \<lparr> plane_axis = AxisX, plane_s = Fin (- 1), plane_limit = x3 half \<rparr>,
       \<lparr> plane_axis = AxisY, plane_s = Fin 1, plane_limit = y3 half \<rparr>,
       \<lparr> plane_axis = AxisY, plane_s = Fin (- 1), plane_limit = y3 half \<rparr>,
       \<lparr> plane_axis = AxisZ, plane_s = Fin 1, plane_limit = z3 half \<rparr>,
       \<lparr> plane_axis = AxisZ, plane_s = Fin (- 1), plane_limit = z3 half \<rparr> ]"

text \<open>
  \<^verbatim>\<open>makeV(i)\<close>, with \<open>M\<close> the mesh's \<^verbatim>\<open>matrixWorld\<close>, \<open>B\<close> the inverse of the box's
  \<^verbatim>\<open>matrixWorld\<close> and \<open>src\<close> the non-indexed copy of the geometry.
\<close>

definition makeV :: "matrix4 \<Rightarrow> matrix4 \<Rightarrow> geometry \<Rightarrow> nat \<Rightarrow> vertex" where
  "makeV M B src i =
     (let pos = geom_position src;
          w = applyMatrix4 M (newVector3 (readArray pos (3 * i)) (readArray pos (3 * i + 1))
                                         (readArray pos (3 * i + 2)));
          b = applyMatrix4 B w
      in \<lparr> pw = w, pb = b,
           uv = (case geom_uv src of
                   None \<Rightarrow> None
                 | Some u \<Rightarrow> Some (newVector2 (readArray u (2 * i)) (readArray u (2 * i + 1)))) \<rparr>)"

text \<open>The loop over the six planes, left as soon as the polygon is empty.\<close>

fun clipPlanes :: "bool \<Rightarrow> vertex list \<Rightarrow> plane list \<Rightarrow> vertex list" where
  "clipPlanes hasUV poly [] = poly"
| "clipPlanes hasUV poly (pl # pls) =
     (let poly' = clipByPlane hasUV poly pl
      in if length poly' = 0 then poly' else clipPlanes hasUV poly' pls)"

definition allInside :: "vec3 \<Rightarrow> vertex list \<Rightarrow> bool" where
  "allInside half poly =
     list_all (\<lambda>p. \<not> (\<not> insideX half (pb p) \<or> \<not> insideY half (pb p) \<or> \<not> insideZ half (pb p))) poly"

definition area2 :: "vertex \<Rightarrow> vertex \<Rightarrow> vertex \<Rightarrow> number" where
  "area2 v0 v1 v2 =
     (let e1 = subVectors (pw v1) (pw v0);
          e2 = subVectors (pw v2) (pw v0)
      in length3 (crossVectors e1 e2))"

definition volumeScale :: "vec3 \<Rightarrow> number" where
  "volumeScale half = Math_max (x3 half) (y3 half) (z3 half)"

text \<open>The test that skips a fan triangle.\<close>

definition degenerate :: "vec3 \<Rightarrow> vertex \<Rightarrow> vertex \<Rightarrow> vertex \<Rightarrow> bool" where
  "degenerate half v0 v1 v2 \<longleftrightarrow>
     \<not> isFinite (area2 v0 v1 v2)
     \<or> nle (area2 v0 v1 v2) (nmul (volumeScale half) (Fin (1 / 10000000)))"

definition coords3 :: "vec3 \<Rightarrow> number list" where
  "coords3 p = [x3 p, y3 p, z3 p]"

definition coords2 :: "vec2 \<Rightarrow> number list" where
  "coords2 p = [x2 p, y2 p]"

text \<open>
  The fan loop over \<open>k\<close>, pushing onto \<^verbatim>\<open>outPos\<close> and \<^verbatim>\<open>outUV\<close>; \<open>W\<close> is \<^verbatim>\<open>worldToLocal\<close>.
\<close>

function fan_loop ::
  "bool \<Rightarrow> matrix4 \<Rightarrow> vec3 \<Rightarrow> vertex list \<Rightarrow> nat \<Rightarrow> number list \<times> number list
     \<Rightarrow> number list \<times> number list" where
  "fan_loop hasUV W half poly k out =
     (if k < length poly - 1 then
        (let v0 = poly ! 0; v1 = poly ! k; v2 = poly ! (k + 1)
         in if degenerate half v0 v1 v2 then fan_loop hasUV W half poly (k + 1) out
            else
              (let p0 = applyMatrix4 W (pw v0);
                   p1 = applyMatrix4 W (pw v1);
                   p2 = applyMatrix4 W (pw v2);
                   outPos = fst out @ coords3 p0 @ coords3 p1 @ coords3 p2;
                   outUV = (if hasUV
                            then snd out @ coords2 (uv_of v0) @ coords2 (uv_of v1) @ coords2 (uv_of v2)
                            else snd out)
               in fan_loop hasUV W half poly (k + 1) (outPos, outUV)))
      else out)"
  by pat_completeness auto
termination
  by (relation "measure (\<lambda>(hasUV, W, half, poly, k, out). length poly - k)") auto

text \<open>The body of the loop over the source triangles, for the triangle starting at \<open>i\<close>.\<close>

definition clipTriangle ::
  "matrix4 \<Rightarrow> matrix4 \<Rightarrow> vec3 \<Rightarrow> geometry \<Rightarrow> nat \<Rightarrow> vertex list" where
  "clipTriangle M B half src i =
     (let poly = [makeV M B src i, makeV M B src (i + 1), makeV M B src (i + 2)]
      in if \<not> allInside half poly then clipPlanes (geom_uv src \<noteq> None) poly (planes half)
         else poly)"

definition triangle_step ::
  "matrix4 \<Rightarrow> matrix4 \<Rightarrow> vec3 \<Rightarrow> geometry \<Rightarrow> nat \<Rightarrow> number list \<times> number list
     \<Rightarrow> number list \<times> number list" where
  "triangle_step M B half src i out =
     (let poly = clipTriangle M B half src i
      in if length poly < 3 then out
         else fan_loop (geom_uv src \<noteq> None) (invert M) half poly 1 out)"

text \<open>
  The loop \<^verbatim>\<open>for (let i = 0; i < pos.count; i += 3)\<close>; \<^verbatim>\<open>pos.count\<close> is the quotient of the
  array length by the item size 3.
\<close>

function triangles_loop ::
  "matrix4 \<Rightarrow> matrix4 \<Rightarrow> vec3 \<Rightarrow> geometry \<Rightarrow> nat \<Rightarrow> number list \<times> number list
     \<Rightarrow> number list \<times> number list" where
  "triangles_loop M B half src i out =
     (if real i < real (length (geom_position src)) / 3
      then triangles_loop M B half src (i + 3) (triangle_step M B half src i out)
      else out)"
  by pat_completeness auto
termination
  by (relation "measure (\<lambda>(M, B, half, src, i, out). length (geom_position src) - i)") auto

text \<open>
  \<^verbatim>\<open>clipMeshKeepInside(child, invBoxMatrixWorld, half)\<close>, on the geometry and the
  \<^verbatim>\<open>matrixWorld\<close> of the child; \<open>None\<close> is \<^verbatim>\<open>null\<close>.
\<close>

definition clipMeshKeepInside :: "geometry \<Rightarrow> matrix4 \<Rightarrow> matrix4 \<Rightarrow> vec3 \<Rightarrow> geometry option" where
  "clipMeshKeepInside geom M B half =
     (let src = (if geom_index geom \<noteq> None then toNonIndexed geom else geom);
          hasUV = (geom_uv src \<noteq> None);
          out = triangles_loop M B half src 0 ([], [])
      in if length (fst out) = 0 then None
         else Some \<lparr> geom_index = None,
                     geom_position = fst out,
                     geom_uv = (if hasUV then Some (snd out) else None) \<rparr>)"

section \<open>The destructive crop effect\<close>

datatype quaternion = Quaternion number number number number

record box3 =
  box_min :: vec3
  box_max :: vec3

text \<open>The calls of the parent's callbacks, in order.\<close>

datatype event =
    ApplyStart
  | CropBounds box3
  | Applied box3
  | AppliedSize box3
  | Error string

text \<open>
  A node visited by \<^verbatim>\<open>sceneObject.traverse\<close>, with the properties the effect reads and
  writes. \<^verbatim>\<open>matrixWorld\<close> is the node's world matrix after \<^verbatim>\<open>updateMatrixWorld(true)\<close>.
\<close>

record object3d =
  isMesh :: bool
  isSkinnedMesh :: bool
  geometry :: "geometry option"
  visible :: bool
  matrixWorld :: matrix4

record crop_region =
  minX :: number
  maxX :: number
  minY :: number
  maxY :: number
  minZ :: number
  maxZ :: number

record crop_props =
  applyCropToken :: nat
  cropEnabled :: bool
  crop :: "crop_region option"
  pairedRotation :: bool

text \<open>
  The state of the viewer that the crop effect touches: the nodes of the loaded scene in
  traversal order (\<open>None\<close> when no model is loaded), the crop box helper and the group,
  each by its quaternion (\<open>None\<close> when absent), the geometries on which \<^verbatim>\<open>dispose\<close> has
  been called, and the callbacks called so far. Materials, their clipping planes and the
  renderer flag are not part of this state.
\<close>

record viewer =
  sceneObject :: "object3d list option"
  boxHelper :: "quaternion option"
  groupQuaternion :: "quaternion option"
  disposed :: "geometry list"
  events :: "event list"

text \<open>
  What the effect calls in three.js and three-csg-ts, taken as parameters:
  \<^verbatim>\<open>CSG.intersect\<close> on the two world-space meshes, which returns a mesh or throws;
  \<^verbatim>\<open>mergeVertices\<close> (\<open>None\<close> when it throws); \<^verbatim>\<open>new BoxGeometry\<close>; the world matrix of a
  mesh with a given position and quaternion; \<^verbatim>\<open>new Box3().setFromObject\<close>.
  \<^verbatim>\<open>computeVertexNormals\<close>, \<^verbatim>\<open>computeBoundingBox\<close> and \<^verbatim>\<open>computeBoundingSphere\<close> only add
  derived data that the geometry record does not hold.
\<close>

datatype csg_outcome = CsgThrows | CsgReturns geometry

record three =
  CSG_intersect :: "geometry \<Rightarrow> geometry \<Rightarrow> csg_outcome"
  mergeVertices :: "geometry \<Rightarrow> geometry option"
  BoxGeometry :: "number \<Rightarrow> number \<Rightarrow> number \<Rightarrow> geometry"
  composeMatrixWorld :: "vec3 \<Rightarrow> quaternion \<Rightarrow> matrix4"
  setFromObject :: "object3d list \<Rightarrow> box3"

text \<open>
  \<^verbatim>\<open>geometry.applyMatrix4(m)\<close> on the position array, vertex by vertex; a trailing partial
  vertex is read with \<^verbatim>\<open>undefined\<close> components and only its existing slots are written.
\<close>

fun applyMatrix4_array :: "matrix4 \<Rightarrow> number list \<Rightarrow> number list" where
  "applyMatrix4_array m (a # b # c # rest) =
     coords3 (applyMatrix4 m (Vector3 a b c)) @ applyMatrix4_array m rest"
| "applyMatrix4_array m [a, b] =
     (let v = applyMatrix4 m (Vector3 a b NaN) in [x3 v, y3 v])"
| "applyMatrix4_array m [a] = [x3 (applyMatrix4 m (Vector3 a NaN NaN))]"
| "applyMatrix4_array m [] = []"

definition geom_applyMatrix4 :: "matrix4 \<Rightarrow> geometry \<Rightarrow> geometry" where
  "geom_applyMatrix4 m g = g\<lparr> geom_position := applyMatrix4_array m (geom_position g) \<rparr>"

text \<open>
  The commit shared by both paths: merge the vertices if that does not throw, dispose the
  old geometry, install the new one, show the mesh.
\<close>

definition commit :: "three \<Rightarrow> object3d \<Rightarrow> geometry \<Rightarrow> geometry list \<Rightarrow> geometry
    \<Rightarrow> object3d \<times> geometry list" where
  "commit lib child old dis newGeom =
     (let cleaned = (case mergeVertices lib newGeom of Some c \<Rightarrow> c | None \<Rightarrow> newGeom)
      in (child\<lparr> geometry := Some cleaned, visible := True \<rparr>, dis @ [old]))"

text \<open>The \<^verbatim>\<open>else\<close> branch: the polygon clipper.\<close>

definition fallback :: "three \<Rightarrow> matrix4 \<Rightarrow> vec3 \<Rightarrow> number \<Rightarrow> object3d \<Rightarrow> geometry
    \<Rightarrow> geometry list \<Rightarrow> object3d \<times> geometry list" where
  "fallback lib boxMatrixWorld boxSize eps child g dis =
     (let invBox = invert boxMatrixWorld;
          half = Vector3 (nadd (nmul (x3 boxSize) (Fin (1 / 2))) eps)
                         (nadd (nmul (y3 boxSize) (Fin (1 / 2))) eps)
                         (nadd (nmul (z3 boxSize) (Fin (1 / 2))) eps)
      in case clipMeshKeepInside g (matrixWorld child) invBox half of
           Some newGeom \<Rightarrow> commit lib child g dis newGeom
         | None \<Rightarrow> (child\<lparr> visible := False \<rparr>, dis))"

text \<open>
  The callback of \<^verbatim>\<open>traverse\<close> on one node. The inner \<^verbatim>\<open>catch\<close> turns a throwing
  \<^verbatim>\<open>CSG.intersect\<close> into \<^verbatim>\<open>resultMesh = null\<close>. No call inside the outer \<^verbatim>\<open>try\<close> raises
  in this model, so its \<^verbatim>\<open>catch\<close> has no branch here.
\<close>

definition cropChild :: "three \<Rightarrow> geometry \<Rightarrow> matrix4 \<Rightarrow> vec3 \<Rightarrow> number \<Rightarrow> object3d
    \<Rightarrow> geometry list \<Rightarrow> object3d \<times> geometry list" where
  "cropChild lib boxGeo boxMatrixWorld boxSize eps child dis =
     (case geometry child of
        None \<Rightarrow> (child, dis)
      | Some g \<Rightarrow>
          if \<not> isMesh child then (child, dis)
          else if isSkinnedMesh child then (child, dis)
          else
            (let aGeoWorld = geom_applyMatrix4 (matrixWorld child) g;
                 bGeoWorld = geom_applyMatrix4 boxMatrixWorld boxGeo;
                 resultMesh = (case CSG_intersect lib aGeoWorld bGeoWorld of
                                 CsgThrows \<Rightarrow> None
                               | CsgReturns r \<Rightarrow> Some r)
             in case resultMesh of
                  None \<Rightarrow> fallback lib boxMatrixWorld boxSize eps child g dis
                | Some r \<Rightarrow>
                    if 0 < real (length (geom_position r)) / 3 then
                      commit lib child g dis (geom_applyMatrix4 (invert (matrixWorld child)) r)
                    else fallback lib boxMatrixWorld boxSize eps child g dis))"

fun traverse_crop :: "three \<Rightarrow> geometry \<Rightarrow> matrix4 \<Rightarrow> vec3 \<Rightarrow> number \<Rightarrow> object3d list
    \<Rightarrow> geometry list \<Rightarrow> object3d list \<times> geometry list" where
  "traverse_crop lib boxGeo boxMatrixWorld boxSize eps [] dis = ([], dis)"
| "traverse_crop lib boxGeo boxMatrixWorld boxSize eps (child # rest) dis =
     (let (child', dis') = cropChild lib boxGeo boxMatrixWorld boxSize eps child dis;
          (rest', dis'') = traverse_crop lib boxGeo boxMatrixWorld boxSize eps rest dis'
      in (child' # rest', dis''))"

text \<open>The effect that runs when \<^verbatim>\<open>applyCropToken\<close> changes.\<close>

definition applyCrop :: "three \<Rightarrow> crop_props \<Rightarrow> viewer \<Rightarrow> viewer" where
  "applyCrop lib props st =
     (if applyCropToken props = 0 then st
      else case sceneObject st of
        None \<Rightarrow> st
      | Some nodes \<Rightarrow>
          (if \<not> cropEnabled props then st
           else
             (case crop props of
                None \<Rightarrow> st
              | Some c \<Rightarrow>
                 (let st1 = st\<lparr> events := events st @ [ApplyStart] \<rparr>;
                      size = Vector3 (nsub (maxX c) (minX c)) (nsub (maxY c) (minY c))
                                     (nsub (maxZ c) (minZ c))
                  in if nle (x3 size) (Fin 0) \<or> nle (y3 size) (Fin 0) \<or> nle (z3 size) (Fin 0)
                     then st1
                     else
                       (let center = Vector3 (ndiv (nadd (minX c) (maxX c)) (Fin 2))
                                             (ndiv (nadd (minY c) (maxY c)) (Fin 2))
                                             (ndiv (nadd (minZ c) (maxZ c)) (Fin 2));
                            eps = nmul (Math_max (x3 size) (y3 size) (z3 size)) (Fin (1 / 100000));
                            boxGeo = BoxGeometry lib (nadd (x3 size) eps) (nadd (y3 size) eps)
                                       (nadd (z3 size) eps);
                            q = (if pairedRotation props \<and> groupQuaternion st \<noteq> None
                                 then groupQuaternion st
                                 else boxHelper st);
                            boxMatrixWorld =
                              composeMatrixWorld lib center
                                (case q of Some r \<Rightarrow> r
                                 | None \<Rightarrow> Quaternion (Fin 0) (Fin 0) (Fin 0) (Fin 1));
                            (nodes', dis') =
                              traverse_crop lib boxGeo boxMatrixWorld size eps nodes (disposed st1);
                            b = setFromObject lib nodes'
                        in st1\<lparr> sceneObject := Some nodes',
                                 disposed := dis',
                                 boxHelper := None,
                                 events := events st1 @ [CropBounds b, Applied b] \<rparr>)))))"

text \<open>
  What the effect derives from the crop region before the traversal: the size of the box,
  the small expansion, the box geometry and the world matrix of the box mesh.
\<close>

definition crop_size :: "crop_region \<Rightarrow> vec3" where
  "crop_size c =
     Vector3 (nsub (maxX c) (minX c)) (nsub (maxY c) (minY c)) (nsub (maxZ c) (minZ c))"

definition crop_eps :: "crop_region \<Rightarrow> number" where
  "crop_eps c =
     nmul (Math_max (x3 (crop_size c)) (y3 (crop_size c)) (z3 (crop_size c))) (Fin (1 / 100000))"

definition crop_boxGeo :: "three \<Rightarrow> crop_region \<Rightarrow> geometry" where
  "crop_boxGeo lib c =
     BoxGeometry lib (nadd (x3 (crop_size c)) (crop_eps c)) (nadd (y3 (crop_size c)) (crop_eps c))
       (nadd (z3 (crop_size c)) (crop_eps c))"

definition crop_boxMatrix :: "three \<Rightarrow> crop_props \<Rightarrow> viewer \<Rightarrow> crop_region \<Rightarrow> matrix4" where
  "crop_boxMatrix lib props st c =
     composeMatrixWorld lib
       (Vector3 (ndiv (nadd (minX c) (maxX c)) (Fin 2)) (ndiv (nadd (minY c) (maxY c)) (Fin 2))
                (ndiv (nadd (minZ c) (maxZ c)) (Fin 2)))
       (case (if pairedRotation props \<and> groupQuaternion st \<noteq> None then groupQuaternion st
              else boxHelper st) of
          Some r \<Rightarrow> r
        | None \<Rightarrow> Quaternion (Fin 0) (Fin 0) (Fin 0) (Fin 1))"

section \<open>The real-world sizing effect\<close>

record size_request =
  targetCm :: "vec3 option"
  lockAspect :: bool
  anchor :: axis

text \<open>
  The scene object as the sizing effect sees it: the position of the enclosing group, the
  position and scale of the scene object, and the corner points, in the frame of the scene
  object, of the bounding boxes of its meshes. Group and scene object are unrotated, as
  they are after loading and after every applied crop: the world image of a local point is
  then \<^verbatim>\<open>group.position + position + scale * p\<close> componentwise, and
  \<^verbatim>\<open>new Box3().setFromObject\<close> is the box of these images.
\<close>

record placement =
  group_position :: vec3
  object_position :: vec3
  object_scale :: vec3
  local_points :: "vec3 list"

definition Math_min2 :: "number \<Rightarrow> number \<Rightarrow> number" where
  "Math_min2 a b = (if a = NaN \<or> b = NaN then NaN else if nle a b then a else b)"

definition addVectors :: "vec3 \<Rightarrow> vec3 \<Rightarrow> vec3" where
  "addVectors a b = Vector3 (nadd (x3 a) (x3 b)) (nadd (y3 a) (y3 b)) (nadd (z3 a) (z3 b))"

definition multiplyVectors :: "vec3 \<Rightarrow> vec3 \<Rightarrow> vec3" where
  "multiplyVectors a b = Vector3 (nmul (x3 a) (x3 b)) (nmul (y3 a) (y3 b)) (nmul (z3 a) (z3 b))"

definition multiplyScalar :: "vec3 \<Rightarrow> number \<Rightarrow> vec3" where
  "multiplyScalar a k = Vector3 (nmul (x3 a) k) (nmul (y3 a) k) (nmul (z3 a) k)"

definition emptyBox :: box3 where
  "emptyBox = \<lparr> box_min = Vector3 PosInf PosInf PosInf, box_max = Vector3 NegInf NegInf NegInf \<rparr>"

definition expandByPoint :: "vec3 \<Rightarrow> box3 \<Rightarrow> box3" where
  "expandByPoint p b =
     \<lparr> box_min = Vector3 (Math_min2 (x3 (box_min b)) (x3 p)) (Math_min2 (y3 (box_min b)) (y3 p))
                         (Math_min2 (z3 (box_min b)) (z3 p)),
       box_max = Vector3 (Math_max2 (x3 (box_max b)) (x3 p)) (Math_max2 (y3 (box_max b)) (y3 p))
                         (Math_max2 (z3 (box_max b)) (z3 p)) \<rparr>"

definition setFromPoints :: "vec3 list \<Rightarrow> box3" where
  "setFromPoints ps = fold expandByPoint ps emptyBox"

definition isEmpty :: "box3 \<Rightarrow> bool" where
  "isEmpty b \<longleftrightarrow>
     nlt (x3 (box_max b)) (x3 (box_min b)) \<or> nlt (y3 (box_max b)) (y3 (box_min b))
     \<or> nlt (z3 (box_max b)) (z3 (box_min b))"

definition getSize :: "box3 \<Rightarrow> vec3" where
  "getSize b =
     (if isEmpty b then Vector3 (Fin 0) (Fin 0) (Fin 0) else subVectors (box_max b) (box_min b))"

definition getCenter :: "box3 \<Rightarrow> vec3" where
  "getCenter b =
     (if isEmpty b then Vector3 (Fin 0) (Fin 0) (Fin 0)
      else multiplyScalar (addVectors (box_min b) (box_max b)) (Fin (1 / 2)))"

definition worldPoint :: "placement \<Rightarrow> vec3 \<Rightarrow> vec3" where
  "worldPoint pl p =
     addVectors (group_position pl) (addVectors (object_position pl) (multiplyVectors (object_scale pl) p))"

definition worldBox :: "placement \<Rightarrow> box3" where
  "worldBox pl = setFromPoints (map (worldPoint pl) (local_points pl))"


text \<open>
  The effect that runs on a size request, on the placement of the loaded scene object
  (\<open>None\<close> when no model is loaded); it returns the new placement and the callbacks called.
\<close>

definition applySize :: "size_request option \<Rightarrow> placement option \<Rightarrow> placement option \<times> event list" where
  "applySize sizeRequest st =
     (case st of
        None \<Rightarrow> (st, [])
      | Some pl \<Rightarrow>
        (case sizeRequest of
           None \<Rightarrow> (st, [])
         | Some req \<Rightarrow>
           (case targetCm req of
              None \<Rightarrow> (st, [])
            | Some t \<Rightarrow>
                if \<not> (ngt (x3 t) (Fin 0) \<and> ngt (y3 t) (Fin 0) \<and> ngt (z3 t) (Fin 0)) then (st, [])
                else
                  (let box = worldBox pl;
                       size = getSize box
                   in if x3 size = Fin 0 \<or> y3 size = Fin 0 \<or> z3 size = Fin 0 then (st, [])
                      else
                        (let curCm = Vector3 (nmul (x3 size) (Fin 100)) (nmul (y3 size) (Fin 100))
                                             (nmul (z3 size) (Fin 100));
                             sx = ndiv (x3 t) (x3 curCm);
                             sy = ndiv (y3 t) (y3 curCm);
                             sz = ndiv (z3 t) (z3 curCm);
                             r = (if anchor req = AxisX then sx
                                  else if anchor req = AxisY then sy else sz);
                             s = (if lockAspect req then Vector3 r r r else Vector3 sx sy sz)
                         in if \<not> isFinite (x3 s) \<or> \<not> isFinite (y3 s) \<or> \<not> isFinite (z3 s)
                            then (st, [])
                            else
                              (let center = getCenter box;
                                   g1 = subVectors (group_position pl) center;
                                   p1 = subVectors (object_position pl) center;
                                   sc = multiplyVectors (object_scale pl) s;
                                   g2 = addVectors g1 center;
                                   p2 = addVectors p1 center;
                                   pl' = pl\<lparr> group_position := g2, object_position := p2,
                                               object_scale := sc \<rparr>
                               in (Some pl', [AppliedSize (worldBox pl')])))))))"

subsection \<open>The per-edge reading of one clip pass\<close>

text \<open>
  The emission rule in the words of the specification, for one pair (prev, cur), and the
  consecutive wrap-around pairs of a polygon in edge order: the polygon rotated right by
  one place, paired with itself, so that the pair ending in the first vertex starts at the
  last one.
\<close>

definition inside_spec :: "plane \<Rightarrow> vertex \<Rightarrow> bool" where
  "inside_spec pl v =
     nle (nmul (plane_s pl) (component (pb v) (plane_axis pl))) (nadd (plane_limit pl) EPS)"

definition emission :: "bool \<Rightarrow> plane \<Rightarrow> vertex \<times> vertex \<Rightarrow> vertex list" where
  "emission hasUV pl e =
     (case e of (prev, cur) \<Rightarrow>
        if inside_spec pl prev \<and> inside_spec pl cur then [cur]
        else if inside_spec pl prev then
          [intersect hasUV prev cur (plane_axis pl) (plane_limit pl)]
        else if inside_spec pl cur then
          [intersect hasUV prev cur (plane_axis pl) (plane_limit pl), cur]
        else [])"

definition wrap_pairs :: "'a list \<Rightarrow> ('a \<times> 'a) list" where
  "wrap_pairs xs = zip (rotate (length xs - 1) xs) xs"

subsection \<open>The triangles that one run of the clipper emits\<close>

text \<open>
  A vertex is fully interior when the absolute value of each of its box-frame coordinates
  is at most the half-extent plus the tolerance.
\<close>

definition interior :: "vec3 \<Rightarrow> vec3 \<Rightarrow> bool" where
  "interior half v \<longleftrightarrow>
     nle (Math_abs (x3 v)) (nadd (x3 half) EPS) \<and> nle (Math_abs (y3 v)) (nadd (y3 half) EPS)
     \<and> nle (Math_abs (z3 v)) (nadd (z3 half) EPS)"

text \<open>
  The candidate triangles of the fan from the first vertex, those that pass the area test,
  and the numbers that an emitted triangle contributes to the two output arrays.
\<close>

definition fan_candidates :: "vertex list \<Rightarrow> (vertex \<times> vertex \<times> vertex) list" where
  "fan_candidates poly = map (\<lambda>k. (poly ! 0, poly ! k, poly ! (k + 1))) [1..<length poly - 1]"

definition rejected :: "vec3 \<Rightarrow> vertex \<times> vertex \<times> vertex \<Rightarrow> bool" where
  "rejected half tri = (case tri of (v0, v1, v2) \<Rightarrow> degenerate half v0 v1 v2)"

definition fan_triangles :: "vec3 \<Rightarrow> vertex list \<Rightarrow> (vertex \<times> vertex \<times> vertex) list" where
  "fan_triangles half poly = filter (\<lambda>tri. \<not> rejected half tri) (fan_candidates poly)"

definition tri_positions :: "matrix4 \<Rightarrow> vertex \<times> vertex \<times> vertex \<Rightarrow> number list" where
  "tri_positions W tri =
     (case tri of (v0, v1, v2) \<Rightarrow>
        coords3 (applyMatrix4 W (pw v0)) @ coords3 (applyMatrix4 W (pw v1))
        @ coords3 (applyMatrix4 W (pw v2)))"

definition tri_uvs :: "vertex \<times> vertex \<times> vertex \<Rightarrow> number list" where
  "tri_uvs tri =
     (case tri of (v0, v1, v2) \<Rightarrow> coords2 (uv_of v0) @ coords2 (uv_of v1) @ coords2 (uv_of v2))"

text \<open>
  The start indices 0, 3, 6, ... of the source triangles below \<^verbatim>\<open>pos.count\<close>, and the
  triangles that survive: for each source triangle in order, the accepted fan triangles of
  its clipped polygon when that has at least three vertices.
\<close>

definition triangle_starts :: "geometry \<Rightarrow> nat list" where
  "triangle_starts src = map (\<lambda>j. 3 * j) [0..<(length (geom_position src) + 8) div 9]"

definition triangle_survivors ::
  "matrix4 \<Rightarrow> matrix4 \<Rightarrow> vec3 \<Rightarrow> geometry \<Rightarrow> nat \<Rightarrow> (vertex \<times> vertex \<times> vertex) list" where
  "triangle_survivors M B half src i =
     (let poly = clipTriangle M B half src i
      in if length poly < 3 then [] else fan_triangles half poly)"

definition surviving ::
  "matrix4 \<Rightarrow> matrix4 \<Rightarrow> vec3 \<Rightarrow> geometry \<Rightarrow> (vertex \<times> vertex \<times> vertex) list" where
  "surviving M B half src =
     concat (map (triangle_survivors M B half src) (triangle_starts src))"

definition identity4 :: matrix4 where
  "identity4 = \<lparr> applyMatrix4 = (\<lambda>p. p), applyInverse = (\<lambda>p. p) \<rparr>"

text \<open>The real-valued interpolation \<open>a + t (b - a)\<close> and the clamp into the unit interval.\<close>

definition mix :: "real \<Rightarrow> real \<Rightarrow> real \<Rightarrow> real" where
  "mix t a b = a + t * (b - a)"

definition clamp01 :: "real \<Rightarrow> real" where
  "clamp01 r = (if r < 0 then 0 else if 1 < r then 1 else r)"

text \<open>
  The source triangle starting at vertex \<open>i\<close>, as built by \<^verbatim>\<open>makeV\<close>, and what it means for
  it to be fully interior.
\<close>

definition source_triangle :: "matrix4 \<Rightarrow> matrix4 \<Rightarrow> geometry \<Rightarrow> nat \<Rightarrow> vertex \<times> vertex \<times> vertex" where
  "source_triangle M B src i = (makeV M B src i, makeV M B src (i + 1), makeV M B src (i + 2))"

definition fully_interior :: "vec3 \<Rightarrow> vertex \<times> vertex \<times> vertex \<Rightarrow> bool" where
  "fully_interior half tri =
     (case tri of (v0, v1, v2) \<Rightarrow>
        interior half (pb v0) \<and> interior half (pb v1) \<and> interior half (pb v2))"

definition tri_list :: "vertex \<times> vertex \<times> vertex \<Rightarrow> vertex list" where
  "tri_list tri = (case tri of (v0, v1, v2) \<Rightarrow> [v0, v1, v2])"

section \<open>Concrete inputs\<close>

text \<open>A mesh of one triangle with uv coordinates, and a mesh of one triangle with legs of 0.1 mm.\<close>

definition tri_geom :: geometry where
  "tri_geom = \<lparr> geom_index = None,
       geom_position = [Fin 0, Fin 0, Fin 0, Fin 1, Fin 0, Fin 0, Fin 0, Fin 1, Fin 0],
       geom_uv = Some [Fin 0, Fin 0, Fin 1, Fin 0, Fin 0, Fin 1] \<rparr>"

definition sliver_geom :: geometry where
  "sliver_geom = \<lparr> geom_index = None,
       geom_position = [Fin 0, Fin 0, Fin 0, Fin (1 / 10000), Fin 0, Fin 0,
                        Fin 0, Fin (1 / 10000), Fin 0],
       geom_uv = None \<rparr>"

text \<open>A mesh of one triangle that straddles the plane \<open>x = -1\<close> of the unit box.\<close>

definition straddle_geom :: geometry where
  "straddle_geom = \<lparr> geom_index = None,
       geom_position = [Fin 0, Fin 0, Fin 0, Fin (- 2), Fin 0, Fin 0, Fin 0, Fin 1, Fin 0],
       geom_uv = None \<rparr>"

definition unit_half :: vec3 where
  "unit_half = Vector3 (Fin 1) (Fin 1) (Fin 1)"

text \<open>The world matrix of an unrotated box centred at \<open>c\<close>.\<close>

definition translation :: "vec3 \<Rightarrow> matrix4" where
  "translation c = \<lparr> applyMatrix4 = (\<lambda>p. addVectors p c), applyInverse = (\<lambda>p. subVectors p c) \<rparr>"

definition far_box :: matrix4 where
  "far_box = translation (Vector3 (Fin 10) (Fin 0) (Fin 0))"

definition unit_size :: vec3 where
  "unit_size = Vector3 (Fin 1) (Fin 1) (Fin 1)"

definition empty_geom :: geometry where
  "empty_geom = \<lparr> geom_index = None, geom_position = [], geom_uv = None \<rparr>"

text \<open>A library whose boolean intersection always throws.\<close>

definition lib_csg_throws :: three where
  "lib_csg_throws =
     \<lparr> CSG_intersect = (\<lambda>a b. CsgThrows),
       mergeVertices = (\<lambda>g. Some g),
       BoxGeometry = (\<lambda>w h d. empty_geom),
       composeMatrixWorld = (\<lambda>c q. translation c),
       setFromObject = (\<lambda>nodes. emptyBox) \<rparr>"

text \<open>
  A world-space triangle, a library whose boolean intersection returns it, and a hidden mesh
  of the first triangle placed one unit along x.
\<close>

definition cut_geom :: geometry where
  "cut_geom = \<lparr> geom_index = None,
       geom_position = [Fin 1, Fin 0, Fin 0, Fin (3 / 2), Fin 0, Fin 0, Fin 1, Fin (1 / 2), Fin 0],
       geom_uv = None \<rparr>"

definition cut_local :: geometry where
  "cut_local = \<lparr> geom_index = None,
       geom_position = [Fin 0, Fin 0, Fin 0, Fin (1 / 2), Fin 0, Fin 0, Fin 0, Fin (1 / 2), Fin 0],
       geom_uv = None \<rparr>"

definition lib_csg_returns :: three where
  "lib_csg_returns = lib_csg_throws\<lparr> CSG_intersect := (\<lambda>a b. CsgReturns cut_geom) \<rparr>"

definition hidden_mesh :: object3d where
  "hidden_mesh = \<lparr> isMesh = True, isSkinnedMesh = False, geometry = Some tri_geom, visible = False,
                   matrixWorld = translation (Vector3 (Fin 1) (Fin 0) (Fin 0)) \<rparr>"

definition unit_crop :: crop_props where
  "unit_crop =
     \<lparr> applyCropToken = 1, cropEnabled = True,
       crop = Some \<lparr> minX = Fin 0, maxX = Fin 2, minY = Fin (- 1), maxY = Fin 1,
                     minZ = Fin (- 1), maxZ = Fin 1 \<rparr>,
       pairedRotation = False \<rparr>"

definition hidden_mesh_viewer :: viewer where
  "hidden_mesh_viewer =
     \<lparr> sceneObject = Some [hidden_mesh], boxHelper = None, groupQuaternion = None,
       disposed = [], events = [] \<rparr>"

definition tri_mesh :: object3d where
  "tri_mesh = \<lparr> isMesh = True, isSkinnedMesh = False, geometry = Some tri_geom, visible = True,
                matrixWorld = identity4 \<rparr>"

definition flat_crop :: crop_props where
  "flat_crop =
     \<lparr> applyCropToken = 1, cropEnabled = True,
       crop = Some \<lparr> minX = Fin 0, maxX = Fin 0, minY = Fin (- 1), maxY = Fin 1,
                     minZ = Fin (- 1), maxZ = Fin 1 \<rparr>,
       pairedRotation = False \<rparr>"

definition one_mesh_viewer :: viewer where
  "one_mesh_viewer =
     \<lparr> sceneObject = Some [tri_mesh], boxHelper = None, groupQuaternion = None,
       disposed = [], events = [] \<rparr>"

text \<open>A crop region of size 1 centred at (10, 0, 0), away from the triangle at the origin.\<close>

definition far_region :: crop_region where
  "far_region = \<lparr> minX = Fin (19 / 2), maxX = Fin (21 / 2), minY = Fin (- 1 / 2),
                   maxY = Fin (1 / 2), minZ = Fin (- 1 / 2), maxZ = Fin (1 / 2) \<rparr>"

definition far_crop :: crop_props where
  "far_crop =
     \<lparr> applyCropToken = 1, cropEnabled = True, crop = Some far_region, pairedRotation = False \<rparr>"

text \<open>
  A position array of two vertices only, so that \<^verbatim>\<open>pos.count\<close> is 2 and the third vertex of
  the one triangle is read past the end of the array; and the triangle the code makes of it.
\<close>

definition short_geom :: geometry where
  "short_geom = \<lparr> geom_index = None,
       geom_position = [Fin 1, Fin 0, Fin 0, Fin 0, Fin 1, Fin 0],
       geom_uv = None \<rparr>"

definition padded_geom :: geometry where
  "padded_geom = \<lparr> geom_index = None,
       geom_position = [Fin 1, Fin 0, Fin 0, Fin 0, Fin 1, Fin 0, Fin 0, Fin 0, Fin 0],
       geom_uv = None \<rparr>"

text \<open>
  A triangle in the box frame that straddles the plane \<open>x = -1\<close>, its mirror image, which
  straddles \<open>x = 1\<close>, and the two planes of the x axis for half-extent 1.
\<close>

definition vert :: "real \<Rightarrow> real \<Rightarrow> real \<Rightarrow> vertex" where
  "vert a b c = \<lparr> pw = Vector3 (Fin a) (Fin b) (Fin c), pb = Vector3 (Fin a) (Fin b) (Fin c), uv = None \<rparr>"

definition plusX :: plane where
  "plusX = \<lparr> plane_axis = AxisX, plane_s = Fin 1, plane_limit = Fin 1 \<rparr>"

definition minusX :: plane where
  "minusX = \<lparr> plane_axis = AxisX, plane_s = Fin (- 1), plane_limit = Fin 1 \<rparr>"


definition centred_object :: placement where
  "centred_object =
     \<lparr> group_position = Vector3 (Fin 0) (Fin 0) (Fin 0),
       object_position = Vector3 (Fin (- 2)) (Fin 0) (Fin 0),
       object_scale = Vector3 (Fin 1) (Fin 1) (Fin 1),
       local_points = [Vector3 (Fin 1) (Fin (- 1)) (Fin (- 1)), Vector3 (Fin 3) (Fin 1) (Fin 1)] \<rparr>"

definition lock_x :: "vec3 \<Rightarrow> size_request" where
  "lock_x t = \<lparr> targetCm = Some t, lockAspect = True, anchor = AxisX \<rparr>"

section \<open>Arithmetic of numbers\<close>

lemma nsub_Fin [simp]: "nsub (Fin a) (Fin b) = Fin (a - b)"
  by (simp add: nsub_def)

lemma ngt_Fin [simp]: "ngt (Fin a) (Fin b) = (b < a)"
  by (simp add: ngt_def)





lemma Math_min2_Fin [simp]: "Math_min2 (Fin a) (Fin b) = Fin (min a b)"
  by (simp add: Math_min2_def min_def)

lemma Math_max2_Fin [simp]: "Math_max2 (Fin a) (Fin b) = Fin (max a b)"
  by (simp add: Math_max2_def max_def)



lemma nge_Fin [simp]: "nge (Fin a) (Fin b) = (b \<le> a)"
  by (simp add: nge_def)

lemma lerpNum_Fin [simp]: "lerpNum (Fin a) (Fin b) (Fin t) = Fin (mix t a b)"
  by (simp add: lerpNum_def mix_def mult.commute)

section \<open>One clip pass\<close>

lemma isInside_spec: "isInside pl v = inside_spec pl v"
  by (cases "plane_axis pl") (simp_all add: isInside_def inside_spec_def getCoord_def)

lemma length_wrap_pairs: "length (wrap_pairs xs) = length xs"
  by (simp add: wrap_pairs_def)

lemma wrap_pairs_nth:
  assumes "i < length xs"
  shows "wrap_pairs xs ! i = (xs ! ((i + length xs - 1) mod length xs), xs ! i)"
proof -
  have "length xs - 1 + i = i + length xs - 1" using assms by simp
  then show ?thesis using assms
    by (simp add: wrap_pairs_def nth_rotate)
qed

lemma wrap_pairs_3: "wrap_pairs [a, b, c] = [(c, a), (a, b), (b, c)]"
  by (simp add: wrap_pairs_def numeral_3_eq_3)

lemma clipByPlane_loop_emissions:
  "i \<le> length poly \<Longrightarrow>
   clipByPlane_loop hasUV poly pl i res =
     res @ concat (map (emission hasUV pl) (drop i (wrap_pairs poly)))"
proof (induction "length poly - i" arbitrary: i res)
  case 0
  then have "i = length poly" by simp
  then show ?case
    by (subst clipByPlane_loop.simps) (simp add: length_wrap_pairs)
next
  case (Suc k)
  then have lt: "i < length poly" by simp
  have d: "drop i (wrap_pairs poly) =
       (poly ! ((i + length poly - 1) mod length poly), poly ! i) # drop (Suc i) (wrap_pairs poly)"
    using lt by (simp add: Cons_nth_drop_Suc [symmetric] length_wrap_pairs wrap_pairs_nth)
  have IH: "clipByPlane_loop hasUV poly pl (Suc i) r =
       r @ concat (map (emission hasUV pl) (drop (Suc i) (wrap_pairs poly)))" for r
    using Suc.hyps(1) [of "Suc i" r] Suc.hyps(2) lt by simp
  show ?case
    by (subst clipByPlane_loop.simps)
       (simp add: lt Let_def IH d emission_def isInside_spec del: clipByPlane_loop.simps)
qed

lemma clipByPlane_emits:
  "clipByPlane hasUV poly pl = concat (map (emission hasUV pl) (wrap_pairs poly))"
  by (simp add: clipByPlane_def clipByPlane_loop_emissions wrap_pairs_def del: clipByPlane_loop.simps)

section \<open>The intersection vertex\<close>

lemma intersect_t_unit: "\<exists>r. intersect_t A B ax limit = Fin r \<and> 0 \<le> r \<and> r \<le> 1"
proof -
  define t0 where "t0 = (if nlt (Math_abs (nsub (component (pb B) ax) (component (pb A) ax))) EPS
      then Fin (1 / 2) else ndiv (nsub limit (component (pb A) ax)) (nsub (component (pb B) ax) (component (pb A) ax)))"
  define t1 where "t1 = (if \<not> isFinite t0 then Fin (1 / 2) else t0)"
  have t: "intersect_t A B ax limit = (if nlt t1 (Fin 0) then Fin 0 else if ngt t1 (Fin 1) then Fin 1 else t1)"
    by (simp add: intersect_t_def Let_def t0_def t1_def)
  have "isFinite t1"
    by (cases t0) (simp_all add: t1_def)
  then obtain r where r: "t1 = Fin r"
    by (cases t1) simp_all
  show ?thesis
    unfolding t r by auto
qed

lemma intersect_t_finite:
  assumes "component (pb A) ax = Fin a" "component (pb B) ax = Fin b" "limit = Fin L"
  shows "intersect_t A B ax limit =
     Fin (if \<bar>b - a\<bar> < 1 / 10000000 then 1 / 2 else clamp01 ((L - a) / (b - a)))"
  using assms by (auto simp: intersect_t_def Let_def EPS_def clamp01_def)

section \<open>The fan and the loop over the triangles\<close>

lemma fan_loop_emits:
  "fan_loop hasUV W half poly k out =
     (fst out @ concat (map (tri_positions W)
          (filter (\<lambda>tri. \<not> rejected half tri)
             (map (\<lambda>k. (poly ! 0, poly ! k, poly ! (k + 1))) [k..<length poly - 1]))),
      if hasUV then
        snd out @ concat (map tri_uvs
          (filter (\<lambda>tri. \<not> rejected half tri)
             (map (\<lambda>k. (poly ! 0, poly ! k, poly ! (k + 1))) [k..<length poly - 1])))
      else snd out)"
proof (induction "length poly - 1 - k" arbitrary: k out)
  case 0
  then have "\<not> k < length poly - 1" by simp
  then show ?case
    by (subst fan_loop.simps) simp
next
  case (Suc n)
  then have lt: "k < length poly - Suc 0" by simp
  have IH: "fan_loop hasUV W half poly (Suc k) o' =
     (fst o' @ concat (map (tri_positions W)
          (filter (\<lambda>tri. \<not> rejected half tri)
             (map (\<lambda>k. (poly ! 0, poly ! k, poly ! (k + 1))) [Suc k..<length poly - 1]))),
      if hasUV then
        snd o' @ concat (map tri_uvs
          (filter (\<lambda>tri. \<not> rejected half tri)
             (map (\<lambda>k. (poly ! 0, poly ! k, poly ! (k + 1))) [Suc k..<length poly - 1])))
      else snd o')" for o'
    using Suc.hyps(1) [of "Suc k" o'] Suc.hyps(2) by simp
  from lt have d: "[k..<length poly - Suc 0] = k # [Suc k..<length poly - Suc 0]"
    by (simp add: upt_conv_Cons)
  show ?case
    by (subst fan_loop.simps)
       (simp add: lt Let_def IH d rejected_def tri_positions_def tri_uvs_def
          del: fan_loop.simps)
qed

lemma fan_loop_1:
  "fan_loop hasUV W half poly 1 out =
     (fst out @ concat (map (tri_positions W) (fan_triangles half poly)),
      if hasUV then snd out @ concat (map tri_uvs (fan_triangles half poly)) else snd out)"
  by (simp add: fan_loop_emits fan_triangles_def fan_candidates_def del: fan_loop.simps)

lemma not_degenerate_area:
  assumes "\<not> degenerate half v0 v1 v2" "volumeScale half \<noteq> NaN"
  shows "isFinite (area2 v0 v1 v2) \<and> ngt (area2 v0 v1 v2) (nmul (volumeScale half) (Fin (1 / 10000000)))"
proof -
  from assms(1) have f: "isFinite (area2 v0 v1 v2)"
    and n: "\<not> nle (area2 v0 v1 v2) (nmul (volumeScale half) (Fin (1 / 10000000)))"
    by (simp_all add: degenerate_def)
  from f obtain a where a: "area2 v0 v1 v2 = Fin a" by (cases "area2 v0 v1 v2") simp_all
  show ?thesis using n assms(2) unfolding a
    by (cases "volumeScale half") (simp_all add: ngt_def)
qed


lemma triangle_step_emits:
  "triangle_step M B half src i out =
     (fst out @ concat (map (tri_positions (invert M)) (triangle_survivors M B half src i)),
      if geom_uv src \<noteq> None
      then snd out @ concat (map tri_uvs (triangle_survivors M B half src i))
      else snd out)"
  unfolding triangle_step_def triangle_survivors_def Let_def fan_loop_1
  by (cases out) simp

lemma loop_guard:
  "real (3 * j) < real L / 3 \<longleftrightarrow> j < (L + 8) div 9"
proof -
  have "real (3 * j) < real L / 3 \<longleftrightarrow> real (9 * j) < real L"
    by (simp add: field_simps)
  also have "\<dots> \<longleftrightarrow> 9 * j < L"
    by (simp only: of_nat_less_iff)
  also have "\<dots> \<longleftrightarrow> j < (L + 8) div 9"
    by presburger
  finally show ?thesis .
qed

lemma triangles_loop_emits:
  "triangles_loop M B half src (3 * j) out =
     (fst out @ concat (map (tri_positions (invert M))
        (concat (map (triangle_survivors M B half src)
           (map (\<lambda>j. 3 * j) [j..<(length (geom_position src) + 8) div 9])))),
      if geom_uv src \<noteq> None
      then snd out @ concat (map tri_uvs
        (concat (map (triangle_survivors M B half src)
           (map (\<lambda>j. 3 * j) [j..<(length (geom_position src) + 8) div 9]))))
      else snd out)"
proof (induction "(length (geom_position src) + 8) div 9 - j" arbitrary: j out)
  case 0
  then have "\<not> j < (length (geom_position src) + 8) div 9" by simp
  then show ?case
    by (subst triangles_loop.simps) (simp only: loop_guard if_False, simp)
next
  case (Suc n)
  then have lt: "j < (length (geom_position src) + 8) div 9" by simp
  have s: "3 * j + 3 = 3 * Suc j" by simp
  note IH = Suc.hyps(1) [of "Suc j"]
  have IH': "triangles_loop M B half src (3 * Suc j) o' =
     (fst o' @ concat (map (tri_positions (invert M))
        (concat (map (triangle_survivors M B half src)
           (map (\<lambda>j. 3 * j) [Suc j..<(length (geom_position src) + 8) div 9])))),
      if geom_uv src \<noteq> None
      then snd o' @ concat (map tri_uvs
        (concat (map (triangle_survivors M B half src)
           (map (\<lambda>j. 3 * j) [Suc j..<(length (geom_position src) + 8) div 9]))))
      else snd o')" for o'
    using Suc.hyps(1) [of "Suc j" o'] Suc.hyps(2) by simp
  show ?case
    apply (subst triangles_loop.simps)
    apply (simp only: loop_guard lt if_True s IH')
    apply (simp add: triangle_step_emits upt_conv_Cons [OF lt] del: triangles_loop.simps)
    done
qed

lemma triangles_loop_surviving:
  "triangles_loop M B half src 0 ([], []) =
     (concat (map (tri_positions (invert M)) (surviving M B half src)),
      if geom_uv src \<noteq> None then concat (map tri_uvs (surviving M B half src)) else [])"
  using triangles_loop_emits [of M B half src 0 "([], [])"]
  by (simp add: surviving_def triangle_starts_def del: triangles_loop.simps)

lemma length_tri_positions: "length (tri_positions W tri) = 9"
  by (cases tri) (simp add: tri_positions_def coords3_def)

lemma length_concat_tri_positions:
  "length (concat (map (tri_positions W) tris)) = 9 * length tris"
  by (induction tris) (simp_all add: length_tri_positions)

lemma toNonIndexed_uv: "geom_uv (toNonIndexed g) = None \<longleftrightarrow> geom_uv g = None"
  by (simp add: toNonIndexed_def split: option.splits)

text \<open>The magnitude of the cross product of the two edges, for finite world positions.\<close>

lemma area2_finite:
  assumes "pw v0 = Vector3 (Fin a1) (Fin a2) (Fin a3)" "pw v1 = Vector3 (Fin b1) (Fin b2) (Fin b3)"
    "pw v2 = Vector3 (Fin c1) (Fin c2) (Fin c3)"
  shows "area2 v0 v1 v2 =
     Fin (sqrt (((b2 - a2) * (c3 - a3) - (b3 - a3) * (c2 - a2))\<^sup>2
              + ((b3 - a3) * (c1 - a1) - (b1 - a1) * (c3 - a3))\<^sup>2
              + ((b1 - a1) * (c2 - a2) - (b2 - a2) * (c1 - a1))\<^sup>2))"
proof -
  let ?nx = "(b2 - a2) * (c3 - a3) - (b3 - a3) * (c2 - a2)"
  let ?ny = "(b3 - a3) * (c1 - a1) - (b1 - a1) * (c3 - a3)"
  let ?nz = "(b1 - a1) * (c2 - a2) - (b2 - a2) * (c1 - a1)"
  have c: "crossVectors (subVectors (pw v1) (pw v0)) (subVectors (pw v2) (pw v0))
      = Vector3 (Fin ?nx) (Fin ?ny) (Fin ?nz)"
    by (simp add: assms crossVectors_def subVectors_def)
  have nn: "\<not> (?nx * ?nx + ?ny * ?ny + ?nz * ?nz < 0)"
    by (simp add: not_less add_nonneg_nonneg)
  show ?thesis
    unfolding area2_def Let_def c length3_def
    using nn by (simp add: power2_eq_square)
qed

section \<open>The uv of clip-time vertices\<close>

text \<open>Under \<^verbatim>\<open>hasUV\<close> every vertex of every polygon carries a uv.\<close>

lemma makeV_uv: "geom_uv src \<noteq> None \<Longrightarrow> uv (makeV M B src i) \<noteq> None"
  by (auto simp: makeV_def Let_def)

lemma clipByPlane_uv:
  assumes "\<forall>v\<in>set poly. uv v \<noteq> None"
  shows "\<forall>v\<in>set (clipByPlane True poly pl). uv v \<noteq> None"
proof -
  have "\<forall>e\<in>set (wrap_pairs poly). \<forall>v\<in>set (emission True pl e). uv v \<noteq> None"
  proof
    fix e assume "e \<in> set (wrap_pairs poly)"
    then have "snd e \<in> set poly"
      unfolding wrap_pairs_def by (metis prod.collapse set_zip_rightD)
    with assms show "\<forall>v\<in>set (emission True pl e). uv v \<noteq> None"
      by (cases e) (auto simp: emission_def intersect_def Let_def)
  qed
  then show ?thesis
    by (auto simp: clipByPlane_emits)
qed

lemma clipPlanes_uv:
  "\<forall>v\<in>set poly. uv v \<noteq> None \<Longrightarrow> \<forall>v\<in>set (clipPlanes True poly pls). uv v \<noteq> None"
proof (induction pls arbitrary: poly)
  case Nil
  then show ?case by simp
next
  case (Cons pl pls)
  from clipByPlane_uv [OF Cons.prems]
  have c: "\<forall>v\<in>set (clipByPlane True poly pl). uv v \<noteq> None" .
  show ?case
    using c Cons.IH [OF c] by (simp add: Let_def)
qed

lemma clipTriangle_uv:
  assumes "geom_uv src \<noteq> None"
  shows "\<forall>v\<in>set (clipTriangle M B half src i). uv v \<noteq> None"
proof -
  have p: "\<forall>v\<in>set [makeV M B src i, makeV M B src (i + 1), makeV M B src (i + 2)]. uv v \<noteq> None"
    using makeV_uv [OF assms, of M B i] makeV_uv [OF assms, of M B "i + 1"]
      makeV_uv [OF assms, of M B "i + 2"] by simp
  show ?thesis
    using p clipPlanes_uv [OF p, of "planes half"] assms
    by (simp add: clipTriangle_def Let_def)
qed

section \<open>Quick accept\<close>

lemma inside_abs:
  "nle (Math_abs x) (nadd h EPS) \<longleftrightarrow> nle x (nadd h EPS) \<and> nge x (nsub (nneg h) EPS)"
  by (cases x; cases h) (auto simp: EPS_def nge_def nsub_def)

lemma interior_iff:
  "interior half v \<longleftrightarrow> insideX half v \<and> insideY half v \<and> insideZ half v"
  by (simp add: interior_def insideX_def insideY_def insideZ_def inside_abs)

lemma allInside_iff: "allInside half poly \<longleftrightarrow> list_all (\<lambda>p. interior half (pb p)) poly"
  by (auto simp: allInside_def interior_iff list_all_iff)

lemma fan_candidates_3: "fan_candidates [a, b, c] = [(a, b, c)]"
proof -
  have "[1..<length [a, b, c] - 1] = [1]"
    by (simp add: upt_rec)
  then show ?thesis
    by (simp add: fan_candidates_def)
qed

lemma quick_accept_triangle:
  assumes "interior half (pb (makeV M B src i))" "interior half (pb (makeV M B src (i + 1)))"
    "interior half (pb (makeV M B src (i + 2)))"
  shows "clipTriangle M B half src i = [makeV M B src i, makeV M B src (i + 1), makeV M B src (i + 2)]"
    and "triangle_survivors M B half src i =
       (if degenerate half (makeV M B src i) (makeV M B src (i + 1)) (makeV M B src (i + 2)) then []
        else [(makeV M B src i, makeV M B src (i + 1), makeV M B src (i + 2))])"
proof -
  show c: "clipTriangle M B half src i = [makeV M B src i, makeV M B src (i + 1), makeV M B src (i + 2)]"
    using assms by (simp add: clipTriangle_def Let_def allInside_iff)
  show "triangle_survivors M B half src i =
       (if degenerate half (makeV M B src i) (makeV M B src (i + 1)) (makeV M B src (i + 2)) then []
        else [(makeV M B src i, makeV M B src (i + 1), makeV M B src (i + 2))])"
    by (simp add: triangle_survivors_def c fan_triangles_def fan_candidates_3 rejected_def)
qed

lemma take3_drop:
  assumes "k + 3 \<le> length xs"
  shows "[argOrZero (readArray xs k), argOrZero (readArray xs (k + 1)), argOrZero (readArray xs (k + 2))] = take 3 (drop k xs)"
proof -
  have "drop k xs = xs ! k # drop (Suc k) xs"
    using assms by (simp add: Cons_nth_drop_Suc)
  also have "drop (Suc k) xs = xs ! (Suc k) # drop (Suc (Suc k)) xs"
    using assms by (simp add: Cons_nth_drop_Suc)
  also have "drop (Suc (Suc k)) xs = xs ! (Suc (Suc k)) # drop (Suc (Suc (Suc k))) xs"
    using assms by (simp add: Cons_nth_drop_Suc)
  finally show ?thesis
    using assms by (simp add: readArray_def argOrZero_def)
qed

lemma take2_drop:
  assumes "k + 2 \<le> length xs"
  shows "[argOrZero (readArray xs k), argOrZero (readArray xs (k + 1))] = take 2 (drop k xs)"
proof -
  have "drop k xs = xs ! k # drop (Suc k) xs"
    using assms by (simp add: Cons_nth_drop_Suc)
  also have "drop (Suc k) xs = xs ! (Suc k) # drop (Suc (Suc k)) xs"
    using assms by (simp add: Cons_nth_drop_Suc)
  finally show ?thesis
    using assms by (simp add: readArray_def argOrZero_def)
qed

lemma concat_chunks:
  "concat (map (\<lambda>j. take c (drop (c * j) xs)) [0..<n]) = take (c * n) xs"
proof (induction n)
  case 0
  show ?case by simp
next
  case (Suc n)
  have "take (c * Suc n) xs = take (c * n) xs @ take c (drop (c * n) xs)"
    by (simp add: take_add [symmetric] add.commute)
  then show ?case
    using Suc by simp
qed

lemma take_split:
  "take (a + b) (drop k xs) = take a (drop k xs) @ take b (drop (k + a) xs)"
  by (simp add: take_add add.commute)

lemma tri_positions_input:
  assumes inv: "\<And>p. applyInverse M (applyMatrix4 M p) = p"
    and len: "9 * j + 9 \<le> length (geom_position src)"
  shows "tri_positions (invert M) (makeV M B src (3 * j), makeV M B src (3 * j + 1), makeV M B src (3 * j + 2))
       = take 9 (drop (9 * j) (geom_position src))"
proof -
  let ?xs = "geom_position src"
  have a: "[argOrZero (readArray ?xs (9 * j)), argOrZero (readArray ?xs (9 * j + 1)), argOrZero (readArray ?xs (9 * j + 2))] = take 3 (drop (9 * j) ?xs)"
    using len by (intro take3_drop) simp
  have b: "[argOrZero (readArray ?xs (9 * j + 3)), argOrZero (readArray ?xs (9 * j + 3 + 1)), argOrZero (readArray ?xs (9 * j + 3 + 2))]
        = take 3 (drop (9 * j + 3) ?xs)"
    using len by (intro take3_drop) simp
  have c: "[argOrZero (readArray ?xs (9 * j + 3 + 3)), argOrZero (readArray ?xs (9 * j + 3 + 3 + 1)), argOrZero (readArray ?xs (9 * j + 3 + 3 + 2))]
        = take 3 (drop (9 * j + 3 + 3) ?xs)"
    using len by (intro take3_drop) simp
  have "take 9 (drop (9 * j) ?xs) = take (3 + 6) (drop (9 * j) ?xs)"
    by simp
  also have "\<dots> = take 3 (drop (9 * j) ?xs) @ take 6 (drop (9 * j + 3) ?xs)"
    by (rule take_split)
  also have "take 6 (drop (9 * j + 3) ?xs) = take (3 + 3) (drop (9 * j + 3) ?xs)"
    by simp
  also have "\<dots> = take 3 (drop (9 * j + 3) ?xs) @ take 3 (drop (9 * j + 3 + 3) ?xs)"
    by (rule take_split)
  finally have t: "take 9 (drop (9 * j) ?xs) =
      take 3 (drop (9 * j) ?xs) @ take 3 (drop (9 * j + 3) ?xs) @ take 3 (drop (9 * j + 3 + 3) ?xs)" .
  have e: "3 * (3 * j) = 9 * j" "3 * (3 * j + 1) = 9 * j + 3" "3 * (3 * j + 2) = 9 * j + 3 + 3"
    by simp_all
  show ?thesis
    unfolding t a [symmetric] b [symmetric] c [symmetric]
    by (simp only: tri_positions_def makeV_def newVector3_def Let_def invert_def inv coords3_def e
        prod.case vertex.simps matrix4.simps vec3.sel append.simps)
qed

lemma tri_uvs_input:
  assumes u: "geom_uv src = Some u" and len: "6 * j + 6 \<le> length u"
  shows "tri_uvs (makeV M B src (3 * j), makeV M B src (3 * j + 1), makeV M B src (3 * j + 2))
       = take 6 (drop (6 * j) u)"
proof -
  have a: "[argOrZero (readArray u (6 * j)), argOrZero (readArray u (6 * j + 1))] = take 2 (drop (6 * j) u)"
    using len by (intro take2_drop) simp
  have b: "[argOrZero (readArray u (6 * j + 2)), argOrZero (readArray u (6 * j + 2 + 1))] = take 2 (drop (6 * j + 2) u)"
    using len by (intro take2_drop) simp
  have c: "[argOrZero (readArray u (6 * j + 2 + 2)), argOrZero (readArray u (6 * j + 2 + 2 + 1))] = take 2 (drop (6 * j + 2 + 2) u)"
    using len by (intro take2_drop) simp
  have "take 6 (drop (6 * j) u) = take (2 + 4) (drop (6 * j) u)"
    by simp
  also have "\<dots> = take 2 (drop (6 * j) u) @ take 4 (drop (6 * j + 2) u)"
    by (rule take_split)
  also have "take 4 (drop (6 * j + 2) u) = take (2 + 2) (drop (6 * j + 2) u)"
    by simp
  also have "\<dots> = take 2 (drop (6 * j + 2) u) @ take 2 (drop (6 * j + 2 + 2) u)"
    by (rule take_split)
  finally have t: "take 6 (drop (6 * j) u) =
      take 2 (drop (6 * j) u) @ take 2 (drop (6 * j + 2) u) @ take 2 (drop (6 * j + 2 + 2) u)" .
  have e: "2 * (3 * j) = 6 * j" "2 * (3 * j + 1) = 6 * j + 2" "2 * (3 * j + 2) = 6 * j + 2 + 2"
    by simp_all
  show ?thesis
    unfolding t a [symmetric] b [symmetric] c [symmetric]
    by (simp only: tri_uvs_def makeV_def newVector2_def Let_def uv_of_def u coords2_def e
        prod.case vertex.simps option.case vec2.sel append.simps)
qed

lemma surviving_interior:
  assumes len: "length (geom_position src) = 9 * n"
    and int: "\<And>j. j < n \<Longrightarrow> interior half (pb (makeV M B src (3 * j)))
                 \<and> interior half (pb (makeV M B src (3 * j + 1)))
                 \<and> interior half (pb (makeV M B src (3 * j + 2)))"
    and nd: "\<And>j. j < n \<Longrightarrow>
        \<not> degenerate half (makeV M B src (3 * j)) (makeV M B src (3 * j + 1)) (makeV M B src (3 * j + 2))"
  shows "surviving M B half src =
     map (\<lambda>j. (makeV M B src (3 * j), makeV M B src (3 * j + 1), makeV M B src (3 * j + 2))) [0..<n]"
proof -
  have st: "triangle_starts src = map (\<lambda>j. 3 * j) [0..<n]"
    by (simp add: triangle_starts_def len)
  have one: "triangle_survivors M B half src (3 * j) =
      [(makeV M B src (3 * j), makeV M B src (3 * j + 1), makeV M B src (3 * j + 2))]"
    if "j < n" for j
    using quick_accept_triangle(2) [of half M B src "3 * j"] int [OF that] nd [OF that]
    by simp
  have "surviving M B half src = concat (map (\<lambda>j. triangle_survivors M B half src (3 * j)) [0..<n])"
    by (simp add: surviving_def st o_def)
  also have "\<dots> = concat (map (\<lambda>j. [(makeV M B src (3 * j), makeV M B src (3 * j + 1),
      makeV M B src (3 * j + 2))]) [0..<n])"
    using one by (intro arg_cong [where f = concat] map_cong refl) simp
  also have "\<dots> = map (\<lambda>j. (makeV M B src (3 * j), makeV M B src (3 * j + 1),
      makeV M B src (3 * j + 2))) [0..<n]"
    by (induction n) simp_all
  finally show ?thesis .
qed

lemma interior_mesh_unchanged:
  assumes src: "src = (if geom_index geom \<noteq> None then toNonIndexed geom else geom)"
    and len: "length (geom_position src) = 9 * n" and n: "0 < n"
    and inv: "\<And>p. applyInverse M (applyMatrix4 M p) = p"
    and int: "\<And>j. j < n \<Longrightarrow> interior half (pb (makeV M B src (3 * j)))
                 \<and> interior half (pb (makeV M B src (3 * j + 1)))
                 \<and> interior half (pb (makeV M B src (3 * j + 2)))"
    and nd: "\<And>j. j < n \<Longrightarrow>
        \<not> degenerate half (makeV M B src (3 * j)) (makeV M B src (3 * j + 1)) (makeV M B src (3 * j + 2))"
  shows "\<exists>out. clipMeshKeepInside geom M B half = Some out
           \<and> geom_index out = None
           \<and> geom_position out = geom_position src
           \<and> (geom_uv src = None \<longrightarrow> geom_uv out = None)
           \<and> (\<forall>u. geom_uv src = Some u \<and> length u = 6 * n \<longrightarrow> geom_uv out = Some u)"
proof -
  let ?t = "\<lambda>j. (makeV M B src (3 * j), makeV M B src (3 * j + 1), makeV M B src (3 * j + 2))"
  have sv: "surviving M B half src = map ?t [0..<n]"
    by (rule surviving_interior [OF len int nd])
  have "concat (map (tri_positions (invert M)) (map ?t [0..<n]))
      = concat (map (\<lambda>j. take 9 (drop (9 * j) (geom_position src))) [0..<n])"
    unfolding map_map o_def
    using len by (intro arg_cong [where f = concat] map_cong refl tri_positions_input inv) simp
  also have "\<dots> = geom_position src"
    by (simp add: concat_chunks len)
  finally have p: "concat (map (tri_positions (invert M)) (surviving M B half src)) = geom_position src"
    unfolding sv .
  have uvs: "concat (map tri_uvs (surviving M B half src)) = u"
    if u: "geom_uv src = Some u" "length u = 6 * n" for u
  proof -
    have "concat (map tri_uvs (map ?t [0..<n])) = concat (map (\<lambda>j. take 6 (drop (6 * j) u)) [0..<n])"
      unfolding map_map o_def
      using u by (intro arg_cong [where f = concat] map_cong refl tri_uvs_input) simp_all
    also have "\<dots> = u"
      by (simp add: concat_chunks u)
    finally show ?thesis unfolding sv .
  qed
  have ne: "geom_position src \<noteq> []"
    using len n by auto
  have run: "clipMeshKeepInside geom M B half =
      Some \<lparr> geom_index = None, geom_position = geom_position src,
             geom_uv = (if geom_uv src \<noteq> None
                        then Some (concat (map tri_uvs (surviving M B half src))) else None) \<rparr>"
    unfolding clipMeshKeepInside_def Let_def src [symmetric] triangles_loop_surviving
    using ne by (simp add: p)
  show ?thesis
    unfolding run using uvs by auto
qed

section \<open>The crop effect\<close>

lemma length_traverse_crop:
  "length (fst (traverse_crop lib boxGeo boxMW boxSize eps nodes dis)) = length nodes"
  by (induction nodes arbitrary: dis) (simp_all add: Let_def case_prod_beta)

lemma fst_cropChild:
  "fst (cropChild lib boxGeo boxMW boxSize eps child dis) =
   fst (cropChild lib boxGeo boxMW boxSize eps child [])"
  by (simp add: cropChild_def fallback_def commit_def Let_def
      split: option.splits csg_outcome.splits)

lemma fst_traverse_crop:
  "fst (traverse_crop lib boxGeo boxMW boxSize eps nodes dis) =
   map (\<lambda>child. fst (cropChild lib boxGeo boxMW boxSize eps child [])) nodes"
proof (induction nodes arbitrary: dis)
  case Nil
  show ?case by simp
next
  case (Cons child rest)
  show ?case
    using fst_cropChild [of lib boxGeo boxMW boxSize eps child dis]
    by (simp add: Let_def case_prod_beta Cons.IH)
qed

text \<open>A run of the effect that passes its guards: the traversal and the callbacks.\<close>

lemma applyCrop_applied:
  assumes "applyCropToken props \<noteq> 0" "sceneObject st = Some nodes" "cropEnabled props"
    "crop props = Some c"
    and "\<not> (nle (x3 (crop_size c)) (Fin 0) \<or> nle (y3 (crop_size c)) (Fin 0)
            \<or> nle (z3 (crop_size c)) (Fin 0))"
  shows "sceneObject (applyCrop lib props st) =
      Some (map (\<lambda>child. fst (cropChild lib (crop_boxGeo lib c) (crop_boxMatrix lib props st c)
                                  (crop_size c) (crop_eps c) child [])) nodes)"
    and "events (applyCrop lib props st) =
      events st @ [ApplyStart,
        CropBounds (setFromObject lib (map (\<lambda>child. fst (cropChild lib (crop_boxGeo lib c)
            (crop_boxMatrix lib props st c) (crop_size c) (crop_eps c) child [])) nodes)),
        Applied (setFromObject lib (map (\<lambda>child. fst (cropChild lib (crop_boxGeo lib c)
            (crop_boxMatrix lib props st c) (crop_size c) (crop_eps c) child [])) nodes))]"
proof -
  let ?t = "traverse_crop lib (crop_boxGeo lib c) (crop_boxMatrix lib props st c) (crop_size c)
      (crop_eps c) nodes (disposed st)"
  have run: "applyCrop lib props st =
      st\<lparr> sceneObject := Some (fst ?t), disposed := snd ?t, boxHelper := None,
          events := events st @ [ApplyStart] @ [CropBounds (setFromObject lib (fst ?t)),
                                               Applied (setFromObject lib (fst ?t))] \<rparr>"
    using assms
    by (simp add: applyCrop_def Let_def case_prod_beta crop_size_def crop_eps_def crop_boxGeo_def
        crop_boxMatrix_def)
  show "sceneObject (applyCrop lib props st) =
      Some (map (\<lambda>child. fst (cropChild lib (crop_boxGeo lib c) (crop_boxMatrix lib props st c)
                                  (crop_size c) (crop_eps c) child [])) nodes)"
    unfolding run by (simp add: fst_traverse_crop)
  show "events (applyCrop lib props st) =
      events st @ [ApplyStart,
        CropBounds (setFromObject lib (map (\<lambda>child. fst (cropChild lib (crop_boxGeo lib c)
            (crop_boxMatrix lib props st c) (crop_size c) (crop_eps c) child [])) nodes)),
        Applied (setFromObject lib (map (\<lambda>child. fst (cropChild lib (crop_boxGeo lib c)
            (crop_boxMatrix lib props st c) (crop_size c) (crop_eps c) child [])) nodes))]"
    unfolding run by (simp add: fst_traverse_crop)
qed

section \<open>Bounding boxes under rescaling\<close>





















section \<open>Evaluation at concrete inputs\<close>

lemmas clip_eval = Let_def makeV_def readArray_def argOrZero_def newVector3_def newVector2_def identity4_def invert_def unit_half_def
  interior_def insideX_def insideY_def insideZ_def EPS_def nge_def nsub_def
  degenerate_def area2_def subVectors_def crossVectors_def length3_def volumeScale_def
  Math_max_def Math_max2_def allInside_def coords3_def coords2_def uv_of_def
  tri_positions_def tri_uvs_def

lemmas plane_eval = clipByPlane_emits wrap_pairs_3 emission_def inside_spec_def intersect_def
  intersect_t_def lerp3_def lerp2_def lerpNum_def Let_def EPS_def nsub_def ngt_def

lemmas box_eval = worldBox_def setFromPoints_def expandByPoint_def emptyBox_def worldPoint_def
  addVectors_def multiplyVectors_def multiplyScalar_def subVectors_def Math_min2_def Math_max2_def
  getSize_def getCenter_def isEmpty_def

lemma sqrt_small: "sqrt (1 / 10000000000000000) = 1 / 100000000"
  using real_sqrt_abs2 [of "1 / 100000000"] by simp

lemma far_clip: "clipMeshKeepInside tri_geom identity4 (invert far_box)
           (Vector3 (nadd (nmul (x3 unit_size) (Fin (1 / 2))) (Fin (1 / 100000)))
                    (nadd (nmul (y3 unit_size) (Fin (1 / 2))) (Fin (1 / 100000)))
                    (nadd (nmul (z3 unit_size) (Fin (1 / 2))) (Fin (1 / 100000)))) = None"
proof -
  let ?half = "Vector3 (Fin (50001 / 100000)) (Fin (50001 / 100000)) (Fin (50001 / 100000))"
  have st: "triangle_starts tri_geom = [0]"
    by (simp add: triangle_starts_def tri_geom_def)
  have "clipTriangle identity4 (invert far_box) ?half tri_geom 0 = []"
    by (simp add: clipTriangle_def tri_geom_def clip_eval far_box_def translation_def planes_def
        plane_eval)
  then have "triangle_survivors identity4 (invert far_box) ?half tri_geom 0 = []"
    by (simp add: triangle_survivors_def)
  then have "surviving identity4 (invert far_box) ?half tri_geom = []"
    by (simp add: surviving_def st)
  then show ?thesis
    by (simp add: clipMeshKeepInside_def Let_def triangles_loop_surviving tri_geom_def unit_size_def
        del: triangles_loop.simps)
qed

lemma wrap_pairs_4: "wrap_pairs [a, b, c, d] = [(d, a), (a, b), (b, c), (c, d)]"
  by (simp add: wrap_pairs_def eval_nat_numeral)

lemma straddle_clip:
  "clipTriangle identity4 identity4 unit_half straddle_geom 0
     = [vert 0 0 0, vert 0 0 0, vert 0 1 0, vert 0 1 0]"
  by (simp add: clipTriangle_def straddle_geom_def clip_eval planes_def plane_eval wrap_pairs_4
      vert_def)

lemma straddle_dropped:
  "clipMeshKeepInside straddle_geom identity4 identity4 unit_half = None"
proof -
  have st: "triangle_starts straddle_geom = [0]"
    by (simp add: triangle_starts_def straddle_geom_def)
  have c: "fan_candidates [vert 0 0 0, vert 0 0 0, vert 0 1 0, vert 0 1 0]
      = [(vert 0 0 0, vert 0 0 0, vert 0 1 0), (vert 0 0 0, vert 0 1 0, vert 0 1 0)]"
    by (simp add: fan_candidates_def upt_rec)
  have "triangle_survivors identity4 identity4 unit_half straddle_geom 0
      = fan_triangles unit_half [vert 0 0 0, vert 0 0 0, vert 0 1 0, vert 0 1 0]"
    by (simp add: triangle_survivors_def straddle_clip)
  also have "\<dots> = []"
    unfolding fan_triangles_def c by (simp add: rejected_def vert_def clip_eval)
  finally have "triangle_survivors identity4 identity4 unit_half straddle_geom 0 = []" .
  then have "surviving identity4 identity4 unit_half straddle_geom = []"
    by (simp add: surviving_def st)
  then show ?thesis
    by (simp add: clipMeshKeepInside_def Let_def triangles_loop_surviving straddle_geom_def
        del: triangles_loop.simps)
qed

lemma tri_geom_survivors:
  "surviving identity4 identity4 unit_half tri_geom = [source_triangle identity4 identity4 tri_geom 0]"
proof -
  have st: "triangle_starts tri_geom = [0]"
    by (simp add: triangle_starts_def tri_geom_def)
  have "triangle_survivors identity4 identity4 unit_half tri_geom 0 =
     [source_triangle identity4 identity4 tri_geom 0]"
    by (simp add: triangle_survivors_def clipTriangle_def fan_triangles_def fan_candidates_3
        rejected_def tri_geom_def source_triangle_def clip_eval)
  then show ?thesis
    by (simp add: surviving_def st)
qed

lemma tri_positions_nonempty: "tri_positions W tri \<noteq> []"
  using length_tri_positions [of W tri] by auto

lemma tri_geom_kept:
  "clipMeshKeepInside tri_geom identity4 identity4 unit_half = Some tri_geom"
proof -
  have p: "tri_positions (invert identity4) (source_triangle identity4 identity4 tri_geom 0)
      = [Fin 0, Fin 0, Fin 0, Fin 1, Fin 0, Fin 0, Fin 0, Fin 1, Fin 0]"
    by (simp add: source_triangle_def tri_geom_def clip_eval)
  have q: "tri_uvs (source_triangle identity4 identity4 tri_geom 0)
      = [Fin 0, Fin 0, Fin 1, Fin 0, Fin 0, Fin 1]"
    by (simp add: source_triangle_def tri_geom_def clip_eval)
  have u: "geom_uv tri_geom \<noteq> None"
    by (simp add: tri_geom_def)
  have r: "triangles_loop identity4 identity4 unit_half tri_geom 0 ([], []) =
      ([Fin 0, Fin 0, Fin 0, Fin 1, Fin 0, Fin 0, Fin 0, Fin 1, Fin 0],
       [Fin 0, Fin 0, Fin 1, Fin 0, Fin 0, Fin 1])"
    unfolding triangles_loop_surviving tri_geom_survivors using u by (simp add: p q)
  have i: "(if geom_index tri_geom \<noteq> None then toNonIndexed tri_geom else tri_geom) = tri_geom"
    by (simp add: tri_geom_def)
  show ?thesis
    unfolding clipMeshKeepInside_def Let_def i r by (simp add: tri_geom_def)
qed

lemma cut_to_local:
  "geom_applyMatrix4 (invert (translation (Vector3 (Fin 1) (Fin 0) (Fin 0)))) cut_geom = cut_local"
  by (simp add: geom_applyMatrix4_def cut_geom_def cut_local_def invert_def translation_def
      subVectors_def coords3_def)

lemma far_region_eval:
  "crop_size far_region = unit_size" "crop_eps far_region = Fin (1 / 100000)"
  "crop_boxMatrix lib_csg_throws far_crop one_mesh_viewer far_region = far_box"
  "crop_boxGeo lib_csg_throws far_region = empty_geom"
  by (simp_all add: crop_size_def crop_eps_def crop_boxMatrix_def crop_boxGeo_def far_region_def
      unit_size_def nsub_def Math_max_def Math_max2_def far_crop_def
      one_mesh_viewer_def lib_csg_throws_def far_box_def)

lemma makeV_past_end:
  "makeV identity4 identity4 short_geom 2 = vert 0 0 0"
  by (simp add: short_geom_def vert_def clip_eval)

lemma short_geom_survivors:
  "surviving identity4 identity4 unit_half short_geom
     = [source_triangle identity4 identity4 short_geom 0]"
proof -
  have st: "triangle_starts short_geom = [0]"
    by (simp add: triangle_starts_def short_geom_def)
  have "triangle_survivors identity4 identity4 unit_half short_geom 0 =
     [source_triangle identity4 identity4 short_geom 0]"
    by (simp add: triangle_survivors_def clipTriangle_def fan_triangles_def fan_candidates_3
        rejected_def short_geom_def source_triangle_def clip_eval)
  then show ?thesis
    by (simp add: surviving_def st)
qed

lemma short_geom_kept:
  "clipMeshKeepInside short_geom identity4 identity4 unit_half = Some padded_geom"
proof -
  have p: "tri_positions (invert identity4) (source_triangle identity4 identity4 short_geom 0)
      = [Fin 1, Fin 0, Fin 0, Fin 0, Fin 1, Fin 0, Fin 0, Fin 0, Fin 0]"
    by (simp add: source_triangle_def short_geom_def clip_eval)
  have u: "geom_uv short_geom = None"
    by (simp add: short_geom_def)
  have r: "triangles_loop identity4 identity4 unit_half short_geom 0 ([], []) =
      ([Fin 1, Fin 0, Fin 0, Fin 0, Fin 1, Fin 0, Fin 0, Fin 0, Fin 0], [])"
    unfolding triangles_loop_surviving short_geom_survivors using u by (simp add: p)
  have i: "(if geom_index short_geom \<noteq> None then toNonIndexed short_geom else short_geom)
      = short_geom"
    by (simp add: short_geom_def)
  show ?thesis
    unfolding clipMeshKeepInside_def Let_def i r by (simp add: short_geom_def padded_geom_def)
qed

section \<open>The claims\<close>

text \<open>
  C1. One pass of the per-plane clipper emits, for each consecutive wrap-around pair
  (prev, cur): cur when both are inside; the edge/plane intersection point when prev is
  inside and cur is outside; the intersection point, then cur, when prev is outside and
  cur is inside; nothing when both are outside. The cases and their order are those of
  lemma \<open>clipByPlane_emits\<close>. The vertex emitted as the intersection point is
  \<^verbatim>\<open>intersect(prev, cur, plane.axis, plane.limit)\<close>, which does not take the sign of the
  plane: for the plane with sign \<open>-1\<close> and limit 1, whose boundary is \<open>x = -1\<close>, the triangle
  with box-frame vertices (0,0,0), (-2,0,0), (0,1,0) yields the two inside vertices twice
  and no point with \<open>x = -1\<close>, while the mirrored triangle against the plane with sign \<open>+1\<close>
  yields the two points on \<open>x = 1\<close>. The polygon of the first triangle has no area, so
  \<^verbatim>\<open>clipMeshKeepInside\<close> returns null for the mesh that consists of it, although half of
  the triangle lies inside the unit box.
\<close>

theorem clipByPlane_minus_plane:
  "clipByPlane False [vert 0 0 0, vert (- 2) 0 0, vert 0 1 0] minusX
     = [vert 0 0 0, vert 0 0 0, vert 0 1 0, vert 0 1 0]
   \<and> clipByPlane False [vert 0 0 0, vert 2 0 0, vert 0 1 0] plusX
     = [vert 0 0 0, vert 1 0 0, vert 1 (1 / 2) 0, vert 0 1 0]
   \<and> clipMeshKeepInside straddle_geom identity4 identity4 unit_half = None"
  using straddle_dropped by (simp add: plane_eval vert_def minusX_def plusX_def)

text \<open>
  C2. The parameter of the intersection vertex is always a finite number in [0, 1]; for
  finite coordinates \<open>a\<close>, \<open>b\<close> of the two endpoints along the axis and a finite limit
  \<open>L\<close> it is 1/2 when \<open>|b - a| < 1e-7\<close> and the clamped quotient \<open>(L - a) / (b - a)\<close>
  otherwise. World position and uv (when the geometry has uvs) of the returned vertex are
  the interpolations \<open>A + t (B - A)\<close> with this same parameter; at \<open>t = 1/2\<close> the uv is the
  arithmetic mean of the two endpoint uvs.
\<close>

theorem intersect_parameter:
  "(\<exists>r. intersect_t A B ax limit = Fin r \<and> 0 \<le> r \<and> r \<le> 1)
   \<and> (\<forall>a b L. component (pb A) ax = Fin a \<and> component (pb B) ax = Fin b \<and> limit = Fin L \<longrightarrow>
          intersect_t A B ax limit =
            Fin (if \<bar>b - a\<bar> < 1 / 10000000 then 1 / 2 else clamp01 ((L - a) / (b - a))))
   \<and> pw (intersect hasUV A B ax limit) = lerp3 (pw A) (pw B) (intersect_t A B ax limit)
   \<and> uv (intersect hasUV A B ax limit) =
        (if hasUV then Some (lerp2 (uv_of A) (uv_of B) (intersect_t A B ax limit)) else None)
   \<and> (\<forall>t x y z x' y' z'. intersect_t A B ax limit = Fin t
          \<and> pw A = Vector3 (Fin x) (Fin y) (Fin z) \<and> pw B = Vector3 (Fin x') (Fin y') (Fin z') \<longrightarrow>
          pw (intersect hasUV A B ax limit) =
            Vector3 (Fin (x + t * (x' - x))) (Fin (y + t * (y' - y))) (Fin (z + t * (z' - z))))
   \<and> (\<forall>t u v u' v'. hasUV \<and> intersect_t A B ax limit = Fin t
          \<and> uv A = Some (Vector2 (Fin u) (Fin v)) \<and> uv B = Some (Vector2 (Fin u') (Fin v')) \<longrightarrow>
          uv (intersect hasUV A B ax limit) =
            Some (Vector2 (Fin (u + t * (u' - u))) (Fin (v + t * (v' - v))))
          \<and> (t = 1 / 2 \<longrightarrow>
               uv (intersect hasUV A B ax limit) =
                 Some (Vector2 (Fin ((u + u') / 2)) (Fin ((v + v') / 2)))))"
proof (intro conjI allI impI)
  show "\<exists>r. intersect_t A B ax limit = Fin r \<and> 0 \<le> r \<and> r \<le> 1"
    by (rule intersect_t_unit)
next
  fix a b L
  assume "component (pb A) ax = Fin a \<and> component (pb B) ax = Fin b \<and> limit = Fin L"
  then show "intersect_t A B ax limit =
      Fin (if \<bar>b - a\<bar> < 1 / 10000000 then 1 / 2 else clamp01 ((L - a) / (b - a)))"
    by (intro intersect_t_finite) simp_all
next
  show "pw (intersect hasUV A B ax limit) = lerp3 (pw A) (pw B) (intersect_t A B ax limit)"
    by (simp add: intersect_def Let_def)
next
  show "uv (intersect hasUV A B ax limit) =
        (if hasUV then Some (lerp2 (uv_of A) (uv_of B) (intersect_t A B ax limit)) else None)"
    by (simp add: intersect_def Let_def)
next
  fix t x y z x' y' z'
  assume "intersect_t A B ax limit = Fin t
          \<and> pw A = Vector3 (Fin x) (Fin y) (Fin z) \<and> pw B = Vector3 (Fin x') (Fin y') (Fin z')"
  then show "pw (intersect hasUV A B ax limit) =
            Vector3 (Fin (x + t * (x' - x))) (Fin (y + t * (y' - y))) (Fin (z + t * (z' - z)))"
    by (simp add: intersect_def Let_def lerp3_def mix_def)
next
  fix t u v u' v'
  assume h: "hasUV \<and> intersect_t A B ax limit = Fin t
          \<and> uv A = Some (Vector2 (Fin u) (Fin v)) \<and> uv B = Some (Vector2 (Fin u') (Fin v'))"
  then show "uv (intersect hasUV A B ax limit) =
            Some (Vector2 (Fin (u + t * (u' - u))) (Fin (v + t * (v' - v))))"
    by (simp add: intersect_def Let_def lerp2_def mix_def uv_of_def)
  assume "t = 1 / 2"
  with h show "uv (intersect hasUV A B ax limit) =
                 Some (Vector2 (Fin ((u + u') / 2)) (Fin ((v + v') / 2)))"
    by (simp add: intersect_def Let_def lerp2_def mix_def uv_of_def field_simps)
qed

theorem intersect_parameter_witness:
  "component (pb (vert 0 0 0)) AxisX = Fin 0 \<and> component (pb (vert 2 0 0)) AxisX = Fin 2
   \<and> intersect_t (vert 0 0 0) (vert 2 0 0) AxisX (Fin 1) = Fin (1 / 2)
   \<and> pw (intersect True (vert 0 0 0) (vert 2 0 0) AxisX (Fin 1)) = Vector3 (Fin 1) (Fin 0) (Fin 0)
   \<and> uv (intersect True (vert 0 0 0\<lparr> uv := Some (Vector2 (Fin 0) (Fin 1)) \<rparr>)
            (vert 2 0 0\<lparr> uv := Some (Vector2 (Fin 1) (Fin 0)) \<rparr>) AxisX (Fin 1))
       = Some (Vector2 (Fin (1 / 2)) (Fin (1 / 2)))"
proof -
  let ?A = "vert 0 0 0\<lparr> uv := Some (Vector2 (Fin 0) (Fin 1)) \<rparr>"
  let ?B = "vert 2 0 0\<lparr> uv := Some (Vector2 (Fin 1) (Fin 0)) \<rparr>"
  note T = intersect_parameter [of "vert 0 0 0" "vert 2 0 0" AxisX "Fin 1" True]
  note U = intersect_parameter [of ?A ?B AxisX "Fin 1" True]
  have t: "intersect_t (vert 0 0 0) (vert 2 0 0) AxisX (Fin 1) = Fin (1 / 2)"
    using T [THEN conjunct2, THEN conjunct1, rule_format, of 0 2 1]
    by (simp add: vert_def clamp01_def)
  have t': "intersect_t ?A ?B AxisX (Fin 1) = Fin (1 / 2)"
    using U [THEN conjunct2, THEN conjunct1, rule_format, of 0 2 1]
    by (simp add: vert_def clamp01_def)
  have p: "pw (intersect True (vert 0 0 0) (vert 2 0 0) AxisX (Fin 1)) = Vector3 (Fin 1) (Fin 0) (Fin 0)"
    using T [THEN conjunct2, THEN conjunct2, THEN conjunct2, THEN conjunct2, THEN conjunct1,
        rule_format, of "1 / 2" 0 0 0 2 0 0] t
    by (simp add: vert_def)
  have u: "uv (intersect True ?A ?B AxisX (Fin 1)) = Some (Vector2 (Fin (1 / 2)) (Fin (1 / 2)))"
    using U [THEN conjunct2, THEN conjunct2, THEN conjunct2, THEN conjunct2, THEN conjunct2,
        rule_format, of "1 / 2" 0 1 1 0] t'
    by (simp add: vert_def)
  show ?thesis
    using t p u by (simp add: vert_def)
qed

text \<open>
  C3. When the crop region has a non-positive size along some axis, the crop effect
  returns before the traversal: the nodes of the scene (their geometry and visibility),
  the list of disposed geometries and the box helper are what they were.
\<close>

theorem applyCrop_invalid_volume:
  assumes "crop props = Some c"
    and "nle (nsub (maxX c) (minX c)) (Fin 0) \<or> nle (nsub (maxY c) (minY c)) (Fin 0)
         \<or> nle (nsub (maxZ c) (minZ c)) (Fin 0)"
  shows "sceneObject (applyCrop lib props st) = sceneObject st
       \<and> disposed (applyCrop lib props st) = disposed st
       \<and> boxHelper (applyCrop lib props st) = boxHelper st"
  using assms by (auto simp: applyCrop_def Let_def split: option.splits)

theorem applyCrop_invalid_volume_witness:
  "nle (nsub (Fin 0) (Fin 0)) (Fin 0)
   \<and> sceneObject (applyCrop lib_csg_throws flat_crop one_mesh_viewer) = Some [tri_mesh]
   \<and> disposed (applyCrop lib_csg_throws flat_crop one_mesh_viewer) = []"
  using applyCrop_invalid_volume [of flat_crop
      "\<lparr> minX = Fin 0, maxX = Fin 0, minY = Fin (- 1), maxY = Fin 1, minZ = Fin (- 1), maxZ = Fin 1 \<rparr>"
      lib_csg_throws one_mesh_viewer]
  by (simp add: flat_crop_def one_mesh_viewer_def)

text \<open>
  C4, as stated, fails: a triangle with legs of 0.1 mm that lies inside a box of
  half-extent 1 on every axis is fully interior, yet the clipper returns null for the mesh
  that consists of it, because the area test also applies to triangles that were accepted
  without clipping.
\<close>

theorem interior_sliver_dropped:
  "fully_interior unit_half (source_triangle identity4 identity4 sliver_geom 0)
   \<and> clipMeshKeepInside sliver_geom identity4 identity4 unit_half = None"
proof -
  have st: "triangle_starts sliver_geom = [0]"
    by (simp add: triangle_starts_def sliver_geom_def)
  have "triangle_survivors identity4 identity4 unit_half sliver_geom 0 = []"
    by (simp add: triangle_survivors_def clipTriangle_def fan_triangles_def fan_candidates_3
        rejected_def sliver_geom_def clip_eval sqrt_small)
  then have "surviving identity4 identity4 unit_half sliver_geom = []"
    by (simp add: surviving_def st)
  then have "clipMeshKeepInside sliver_geom identity4 identity4 unit_half = None"
    by (simp add: clipMeshKeepInside_def Let_def triangles_loop_surviving sliver_geom_def
        del: triangles_loop.simps)
  moreover have "fully_interior unit_half (source_triangle identity4 identity4 sliver_geom 0)"
    by (simp add: fully_interior_def source_triangle_def sliver_geom_def clip_eval)
  ultimately show ?thesis by simp
qed

text \<open>
  C4, amended. For a triangle whose three vertices are fully interior the six clip passes
  are skipped and the polygon is the source triangle; if its world-space cross-product
  magnitude is finite and above \<open>volumeScale * 1e-7\<close> the triangle is appended to the output
  with its positions mapped back by the inverse world matrix (and its uvs), otherwise it
  contributes nothing. For a mesh of \<open>n > 0\<close> complete triangles that are all fully interior
  and all pass the area test, with a world matrix that its inverse undoes, the returned
  geometry is non-indexed and has exactly the position array of the (non-indexed) source,
  and its uv array when that has \<open>6 n\<close> entries.
\<close>

theorem quick_accept_keeps_triangle:
  "(fully_interior half (source_triangle M B src i) \<longrightarrow>
      clipTriangle M B half src i = tri_list (source_triangle M B src i)
      \<and> (\<not> rejected half (source_triangle M B src i) \<longrightarrow>
           triangle_step M B half src i out =
             (fst out @ tri_positions (invert M) (source_triangle M B src i),
              if geom_uv src \<noteq> None then snd out @ tri_uvs (source_triangle M B src i)
              else snd out))
      \<and> (rejected half (source_triangle M B src i) \<longrightarrow> triangle_step M B half src i out = out))
   \<and> (src = (if geom_index geom \<noteq> None then toNonIndexed geom else geom)
       \<and> length (geom_position src) = 9 * n \<and> 0 < n
       \<and> (\<forall>p. applyInverse M (applyMatrix4 M p) = p)
       \<and> (\<forall>j<n. fully_interior half (source_triangle M B src (3 * j))
                \<and> \<not> rejected half (source_triangle M B src (3 * j))) \<longrightarrow>
       (\<exists>res. clipMeshKeepInside geom M B half = Some res
           \<and> geom_index res = None
           \<and> geom_position res = geom_position src
           \<and> (geom_uv src = None \<longrightarrow> geom_uv res = None)
           \<and> (\<forall>u. geom_uv src = Some u \<and> length u = 6 * n \<longrightarrow> geom_uv res = Some u)))"
proof (intro conjI impI)
  assume f: "fully_interior half (source_triangle M B src i)"
  then have i: "interior half (pb (makeV M B src i))" "interior half (pb (makeV M B src (i + 1)))"
    "interior half (pb (makeV M B src (i + 2)))"
    by (simp_all add: fully_interior_def source_triangle_def)
  show "clipTriangle M B half src i = tri_list (source_triangle M B src i)"
    using quick_accept_triangle(1) [OF i] by (simp add: tri_list_def source_triangle_def)
  have sv: "triangle_survivors M B half src i =
      (if rejected half (source_triangle M B src i) then [] else [source_triangle M B src i])"
    using quick_accept_triangle(2) [OF i] by (simp add: rejected_def source_triangle_def)
  {
    assume "\<not> rejected half (source_triangle M B src i)"
    then show "triangle_step M B half src i out =
             (fst out @ tri_positions (invert M) (source_triangle M B src i),
              if geom_uv src \<noteq> None then snd out @ tri_uvs (source_triangle M B src i)
              else snd out)"
      by (simp add: triangle_step_emits sv)
  }
  {
    assume "rejected half (source_triangle M B src i)"
    then show "triangle_step M B half src i out = out"
      by (simp add: triangle_step_emits sv)
  }
next
  assume h: "src = (if geom_index geom \<noteq> None then toNonIndexed geom else geom)
       \<and> length (geom_position src) = 9 * n \<and> 0 < n
       \<and> (\<forall>p. applyInverse M (applyMatrix4 M p) = p)
       \<and> (\<forall>j<n. fully_interior half (source_triangle M B src (3 * j))
                \<and> \<not> rejected half (source_triangle M B src (3 * j)))"
  show "\<exists>res. clipMeshKeepInside geom M B half = Some res
           \<and> geom_index res = None
           \<and> geom_position res = geom_position src
           \<and> (geom_uv src = None \<longrightarrow> geom_uv res = None)
           \<and> (\<forall>u. geom_uv src = Some u \<and> length u = 6 * n \<longrightarrow> geom_uv res = Some u)"
  proof (rule interior_mesh_unchanged [of src geom n M half B])
    show "src = (if geom_index geom \<noteq> None then toNonIndexed geom else geom)"
      using h by blast
    show "length (geom_position src) = 9 * n" using h by blast
    show "0 < n" using h by blast
    show "applyInverse M (applyMatrix4 M p) = p" for p using h by blast
    show "interior half (pb (makeV M B src (3 * j))) \<and> interior half (pb (makeV M B src (3 * j + 1)))
        \<and> interior half (pb (makeV M B src (3 * j + 2)))" if "j < n" for j
      using h that by (auto simp: fully_interior_def source_triangle_def)
    show "\<not> degenerate half (makeV M B src (3 * j)) (makeV M B src (3 * j + 1)) (makeV M B src (3 * j + 2))"
      if "j < n" for j
      using h that by (auto simp: rejected_def source_triangle_def)
  qed
qed

theorem quick_accept_keeps_triangle_witness:
  "fully_interior unit_half (source_triangle identity4 identity4 tri_geom 0)
   \<and> \<not> rejected unit_half (source_triangle identity4 identity4 tri_geom 0)
   \<and> clipTriangle identity4 identity4 unit_half tri_geom 0
       = tri_list (source_triangle identity4 identity4 tri_geom 0)
   \<and> clipMeshKeepInside tri_geom identity4 identity4 unit_half = Some tri_geom"
proof -
  have f: "fully_interior unit_half (source_triangle identity4 identity4 tri_geom 0)"
    by (simp add: fully_interior_def source_triangle_def tri_geom_def clip_eval)
  have r: "\<not> rejected unit_half (source_triangle identity4 identity4 tri_geom 0)"
    by (simp add: rejected_def source_triangle_def tri_geom_def clip_eval)
  note T = quick_accept_keeps_triangle [of unit_half identity4 identity4 tri_geom 0 "([], [])" tri_geom 1]
  have c: "clipTriangle identity4 identity4 unit_half tri_geom 0
       = tri_list (source_triangle identity4 identity4 tri_geom 0)"
    using T f by blast
  have "\<exists>res. clipMeshKeepInside tri_geom identity4 identity4 unit_half = Some res
           \<and> geom_index res = None
           \<and> geom_position res = geom_position tri_geom
           \<and> (geom_uv tri_geom = None \<longrightarrow> geom_uv res = None)
           \<and> (\<forall>u. geom_uv tri_geom = Some u \<and> length u = 6 * 1 \<longrightarrow> geom_uv res = Some u)"
  proof (rule T [THEN conjunct2, rule_format])
    show "tri_geom = (if geom_index tri_geom \<noteq> None then toNonIndexed tri_geom else tri_geom)
       \<and> length (geom_position tri_geom) = 9 * 1 \<and> 0 < (1::nat)
       \<and> (\<forall>p. applyInverse identity4 (applyMatrix4 identity4 p) = p)
       \<and> (\<forall>j<1. fully_interior unit_half (source_triangle identity4 identity4 tri_geom (3 * j))
                \<and> \<not> rejected unit_half (source_triangle identity4 identity4 tri_geom (3 * j)))"
      using f r by (simp add: tri_geom_def identity4_def)
  qed
  then obtain res where res: "clipMeshKeepInside tri_geom identity4 identity4 unit_half = Some res"
    "geom_index res = None" "geom_position res = geom_position tri_geom"
    "geom_uv res = geom_uv tri_geom"
    by (auto simp: tri_geom_def)
  then have "res = tri_geom"
    by (simp add: tri_geom_def)
  with res f r c show ?thesis by simp
qed

text \<open>
  C5. When the crop of a non-skinned mesh yields no triangle, that is the boolean
  intersection throws or returns an empty position attribute and \<^verbatim>\<open>clipMeshKeepInside\<close>
  returns null, the mesh is only hidden: its \<^verbatim>\<open>visible\<close> flag becomes false, its geometry
  stays the one it had, nothing is disposed, and the traversal keeps every node of the
  scene.
\<close>

theorem empty_clip_hides_mesh:
  assumes "isMesh child" "\<not> isSkinnedMesh child" "geometry child = Some g"
    and "CSG_intersect lib (geom_applyMatrix4 (matrixWorld child) g)
             (geom_applyMatrix4 boxMW boxGeo) = CsgThrows
         \<or> (\<exists>r. CSG_intersect lib (geom_applyMatrix4 (matrixWorld child) g)
                  (geom_applyMatrix4 boxMW boxGeo) = CsgReturns r \<and> geom_position r = [])"
    and "clipMeshKeepInside g (matrixWorld child) (invert boxMW)
           (Vector3 (nadd (nmul (x3 boxSize) (Fin (1 / 2))) eps)
                    (nadd (nmul (y3 boxSize) (Fin (1 / 2))) eps)
                    (nadd (nmul (z3 boxSize) (Fin (1 / 2))) eps)) = None"
  shows "cropChild lib boxGeo boxMW boxSize eps child dis = (child\<lparr> visible := False \<rparr>, dis)
       \<and> geometry (fst (cropChild lib boxGeo boxMW boxSize eps child dis)) = Some g
       \<and> length (fst (traverse_crop lib boxGeo boxMW boxSize eps (before @ child # after) dis0))
           = length (before @ child # after)"
  using assms by (auto simp: cropChild_def fallback_def Let_def length_traverse_crop)

theorem empty_clip_hides_mesh_witness:
  "isMesh tri_mesh \<and> \<not> isSkinnedMesh tri_mesh \<and> geometry tri_mesh = Some tri_geom
   \<and> cropChild lib_csg_throws empty_geom far_box unit_size (Fin (1 / 100000)) tri_mesh []
       = (tri_mesh\<lparr> visible := False \<rparr>, [])"
  using empty_clip_hides_mesh [of tri_mesh tri_geom lib_csg_throws far_box empty_geom unit_size
      "Fin (1 / 100000)" "[]" "[]" "[]" "[]"] far_clip
  by (simp add: tri_mesh_def lib_csg_throws_def)




text \<open>
  C7. After an applied scale request the centre of the bounding box should be where it was.
  The effect subtracts the centre from the two positions, multiplies the scale and adds the
  centre again, which leaves both positions as they were and scales the object about its own
  origin: for the object of size 2 m whose geometry spans x from 1 to 3 in its own frame and
  whose position (-2, 0, 0) centres it on the world origin, the request for 100 cm per axis
  halves the scale and moves the centre of the box from (0, 0, 0) to (-1, 0, 0).
\<close>

theorem applySize_moves_center:
  "getCenter (worldBox centred_object) = Vector3 (Fin 0) (Fin 0) (Fin 0)
   \<and> applySize (Some (lock_x (Vector3 (Fin 100) (Fin 100) (Fin 100)))) (Some centred_object)
       = (Some (centred_object\<lparr> object_scale := Vector3 (Fin (1 / 2)) (Fin (1 / 2)) (Fin (1 / 2)) \<rparr>),
          [AppliedSize \<lparr> box_min = Vector3 (Fin (- 3 / 2)) (Fin (- 1 / 2)) (Fin (- 1 / 2)),
                         box_max = Vector3 (Fin (- 1 / 2)) (Fin (1 / 2)) (Fin (1 / 2)) \<rparr>])
   \<and> getCenter (worldBox (centred_object\<lparr> object_scale :=
           Vector3 (Fin (1 / 2)) (Fin (1 / 2)) (Fin (1 / 2)) \<rparr>))
       = Vector3 (Fin (- 1)) (Fin 0) (Fin 0)"
  by (simp add: applySize_def centred_object_def lock_x_def box_eval Let_def)

theorem applySize_moves_center_witness:
  "map_option (\<lambda>pl. getCenter (worldBox pl))
     (fst (applySize (Some (lock_x (Vector3 (Fin 100) (Fin 100) (Fin 100)))) (Some centred_object)))
     = Some (Vector3 (Fin (- 1)) (Fin 0) (Fin 0))
   \<and> getCenter (worldBox centred_object) = Vector3 (Fin 0) (Fin 0) (Fin 0)"
  using applySize_moves_center by simp

text \<open>
  C8. The fan loop appends exactly the candidate triangles of the fan that are not rejected,
  in order; a candidate is rejected exactly when its world-space cross-product magnitude is
  not finite or is at most \<open>volumeScale * 1e-7\<close>; for a finite half-extent vector
  \<open>volumeScale\<close> is the largest of its three components and every emitted triangle has a
  finite magnitude strictly above \<open>volumeScale * 1e-7\<close>. For finite world positions
  \<open>a\<close>, \<open>b\<close>, \<open>c\<close> of the three vertices the magnitude is the Euclidean length of
  \<open>(b - a) \<times> (c - a)\<close>, the square root of the sum of the squares of its three components,
  so that for every emitted triangle with finite positions this square root is strictly
  above the largest half-extent times \<open>1e-7\<close>.
\<close>

theorem fan_area_filter:
  "fan_loop hasUV W half poly 1 out =
     (fst out @ concat (map (tri_positions W) (fan_triangles half poly)),
      if hasUV then snd out @ concat (map tri_uvs (fan_triangles half poly)) else snd out)
   \<and> set (fan_triangles half poly) = {tri \<in> set (fan_candidates poly). \<not> rejected half tri}
   \<and> (\<forall>v0 v1 v2. rejected half (v0, v1, v2) \<longleftrightarrow>
          \<not> isFinite (area2 v0 v1 v2)
          \<or> nle (area2 v0 v1 v2) (nmul (volumeScale half) (Fin (1 / 10000000))))
   \<and> (\<forall>hx hy hz. half = Vector3 (Fin hx) (Fin hy) (Fin hz) \<longrightarrow>
          volumeScale half = Fin (max (max hx hy) hz)
          \<and> (\<forall>tri \<in> set (fan_triangles half poly).
                \<exists>a. area2 (fst tri) (fst (snd tri)) (snd (snd tri)) = Fin a
                    \<and> max (max hx hy) hz * (1 / 10000000) < a))
   \<and> (\<forall>v0 v1 v2 a1 a2 a3 b1 b2 b3 c1 c2 c3.
          pw v0 = Vector3 (Fin a1) (Fin a2) (Fin a3) \<and> pw v1 = Vector3 (Fin b1) (Fin b2) (Fin b3)
          \<and> pw v2 = Vector3 (Fin c1) (Fin c2) (Fin c3) \<longrightarrow>
          area2 v0 v1 v2 =
            Fin (sqrt (((b2 - a2) * (c3 - a3) - (b3 - a3) * (c2 - a2))\<^sup>2
                     + ((b3 - a3) * (c1 - a1) - (b1 - a1) * (c3 - a3))\<^sup>2
                     + ((b1 - a1) * (c2 - a2) - (b2 - a2) * (c1 - a1))\<^sup>2)))
   \<and> (\<forall>v0 v1 v2 hx hy hz a1 a2 a3 b1 b2 b3 c1 c2 c3.
          half = Vector3 (Fin hx) (Fin hy) (Fin hz) \<and> (v0, v1, v2) \<in> set (fan_triangles half poly)
          \<and> pw v0 = Vector3 (Fin a1) (Fin a2) (Fin a3) \<and> pw v1 = Vector3 (Fin b1) (Fin b2) (Fin b3)
          \<and> pw v2 = Vector3 (Fin c1) (Fin c2) (Fin c3) \<longrightarrow>
          max (max hx hy) hz * (1 / 10000000)
            < sqrt (((b2 - a2) * (c3 - a3) - (b3 - a3) * (c2 - a2))\<^sup>2
                  + ((b3 - a3) * (c1 - a1) - (b1 - a1) * (c3 - a3))\<^sup>2
                  + ((b1 - a1) * (c2 - a2) - (b2 - a2) * (c1 - a1))\<^sup>2))"
proof -
  have emitted: "\<exists>a. area2 (fst tri) (fst (snd tri)) (snd (snd tri)) = Fin a
          \<and> max (max hx hy) hz * (1 / 10000000) < a"
    if h: "half = Vector3 (Fin hx) (Fin hy) (Fin hz)" and t: "tri \<in> set (fan_triangles half poly)"
    for hx hy hz tri
  proof -
    have vs: "volumeScale half = Fin (max (max hx hy) hz)"
      by (simp add: h volumeScale_def Math_max_def)
    from t have "\<not> rejected half tri"
      by (simp add: fan_triangles_def)
    then have nd: "\<not> degenerate half (fst tri) (fst (snd tri)) (snd (snd tri))"
      by (simp add: rejected_def case_prod_beta)
    have "volumeScale half \<noteq> NaN"
      by (simp add: vs)
    from not_degenerate_area [OF nd this] show ?thesis
      by (cases "area2 (fst tri) (fst (snd tri)) (snd (snd tri))") (simp_all add: vs)
  qed
  show ?thesis
  proof (intro conjI allI impI ballI)
    show "fan_loop hasUV W half poly 1 out =
       (fst out @ concat (map (tri_positions W) (fan_triangles half poly)),
        if hasUV then snd out @ concat (map tri_uvs (fan_triangles half poly)) else snd out)"
      by (rule fan_loop_1)
    show "set (fan_triangles half poly) = {tri \<in> set (fan_candidates poly). \<not> rejected half tri}"
      by (auto simp: fan_triangles_def)
    show "rejected half (v0, v1, v2) \<longleftrightarrow>
            \<not> isFinite (area2 v0 v1 v2)
            \<or> nle (area2 v0 v1 v2) (nmul (volumeScale half) (Fin (1 / 10000000)))" for v0 v1 v2
      by (simp add: rejected_def degenerate_def)
    show "volumeScale half = Fin (max (max hx hy) hz)"
      if "half = Vector3 (Fin hx) (Fin hy) (Fin hz)" for hx hy hz
      using that by (simp add: volumeScale_def Math_max_def)
    show "\<exists>a. area2 (fst tri) (fst (snd tri)) (snd (snd tri)) = Fin a
          \<and> max (max hx hy) hz * (1 / 10000000) < a"
      if "half = Vector3 (Fin hx) (Fin hy) (Fin hz)" "tri \<in> set (fan_triangles half poly)"
      for hx hy hz tri
      using that by (rule emitted)
    show "area2 v0 v1 v2 =
            Fin (sqrt (((b2 - a2) * (c3 - a3) - (b3 - a3) * (c2 - a2))\<^sup>2
                     + ((b3 - a3) * (c1 - a1) - (b1 - a1) * (c3 - a3))\<^sup>2
                     + ((b1 - a1) * (c2 - a2) - (b2 - a2) * (c1 - a1))\<^sup>2))"
      if "pw v0 = Vector3 (Fin a1) (Fin a2) (Fin a3) \<and> pw v1 = Vector3 (Fin b1) (Fin b2) (Fin b3)
          \<and> pw v2 = Vector3 (Fin c1) (Fin c2) (Fin c3)"
      for v0 v1 v2 a1 a2 a3 b1 b2 b3 c1 c2 c3
      using that by (intro area2_finite) simp_all
    show "max (max hx hy) hz * (1 / 10000000)
            < sqrt (((b2 - a2) * (c3 - a3) - (b3 - a3) * (c2 - a2))\<^sup>2
                  + ((b3 - a3) * (c1 - a1) - (b1 - a1) * (c3 - a3))\<^sup>2
                  + ((b1 - a1) * (c2 - a2) - (b2 - a2) * (c1 - a1))\<^sup>2)"
      if h: "half = Vector3 (Fin hx) (Fin hy) (Fin hz) \<and> (v0, v1, v2) \<in> set (fan_triangles half poly)
          \<and> pw v0 = Vector3 (Fin a1) (Fin a2) (Fin a3) \<and> pw v1 = Vector3 (Fin b1) (Fin b2) (Fin b3)
          \<and> pw v2 = Vector3 (Fin c1) (Fin c2) (Fin c3)"
      for v0 v1 v2 hx hy hz a1 a2 a3 b1 b2 b3 c1 c2 c3
    proof -
      from h have a: "area2 v0 v1 v2 =
            Fin (sqrt (((b2 - a2) * (c3 - a3) - (b3 - a3) * (c2 - a2))\<^sup>2
                     + ((b3 - a3) * (c1 - a1) - (b1 - a1) * (c3 - a3))\<^sup>2
                     + ((b1 - a1) * (c2 - a2) - (b2 - a2) * (c1 - a1))\<^sup>2))"
        by (intro area2_finite) simp_all
      from h have hh: "half = Vector3 (Fin hx) (Fin hy) (Fin hz)"
        and mem: "(v0, v1, v2) \<in> set (fan_triangles half poly)"
        by blast+
      from emitted [OF hh mem] obtain r where
        "area2 v0 v1 v2 = Fin r" "max (max hx hy) hz * (1 / 10000000) < r"
        by auto
      with a show ?thesis
        by simp
    qed
  qed
qed

theorem fan_area_filter_witness:
  "unit_half = Vector3 (Fin 1) (Fin 1) (Fin 1)
   \<and> pw (vert 0 0 0) = Vector3 (Fin 0) (Fin 0) (Fin 0)
   \<and> (vert 0 0 0, vert 2 0 0, vert 0 3 0)
        \<in> set (fan_triangles unit_half [vert 0 0 0, vert 2 0 0, vert 0 3 0])
   \<and> area2 (vert 0 0 0) (vert 2 0 0) (vert 0 3 0) = Fin 6
   \<and> max (max 1 1) 1 * (1 / 10000000) < (6 :: real)
   \<and> rejected unit_half (vert 0 0 0, vert 2 0 0, vert 4 0 0)
   \<and> area2 (vert 0 0 0) (vert 2 0 0) (vert 4 0 0) = Fin 0"
proof -
  note T = fan_area_filter [of False identity4 unit_half "[vert 0 0 0, vert 2 0 0, vert 0 3 0]" "([], [])"]
  have s: "sqrt 36 = 6"
    using real_sqrt_abs2 [of 6] by simp
  have a: "area2 (vert 0 0 0) (vert 2 0 0) (vert 0 3 0) = Fin 6"
    using T [THEN conjunct2, THEN conjunct2, THEN conjunct2, THEN conjunct2, THEN conjunct1,
        rule_format, of "vert 0 0 0" 0 0 0 "vert 2 0 0" 2 0 0 "vert 0 3 0" 0 3 0]
    by (simp add: vert_def s)
  have z: "area2 (vert 0 0 0) (vert 2 0 0) (vert 4 0 0) = Fin 0"
    using T [THEN conjunct2, THEN conjunct2, THEN conjunct2, THEN conjunct2, THEN conjunct1,
        rule_format, of "vert 0 0 0" 0 0 0 "vert 2 0 0" 2 0 0 "vert 4 0 0" 4 0 0]
    by (simp add: vert_def)
  have r: "rejected unit_half (vert 0 0 0, vert 2 0 0, vert 4 0 0)"
    using T [THEN conjunct2, THEN conjunct2, THEN conjunct1, rule_format,
        of "vert 0 0 0" "vert 2 0 0" "vert 4 0 0"]
    by (simp add: z unit_half_def volumeScale_def Math_max_def)
  have nr: "\<not> rejected unit_half (vert 0 0 0, vert 2 0 0, vert 0 3 0)"
    using T [THEN conjunct2, THEN conjunct2, THEN conjunct1, rule_format,
        of "vert 0 0 0" "vert 2 0 0" "vert 0 3 0"]
    by (simp add: a unit_half_def volumeScale_def Math_max_def)
  have m: "(vert 0 0 0, vert 2 0 0, vert 0 3 0)
        \<in> set (fan_triangles unit_half [vert 0 0 0, vert 2 0 0, vert 0 3 0])"
    using T [THEN conjunct2, THEN conjunct1] nr
    by (simp add: fan_candidates_3)
  show ?thesis
    using a z r m by (simp add: unit_half_def vert_def)
qed

text \<open>
  C9. For a non-skinned mesh with a geometry the boolean intersection is evaluated first.
  If it returns a mesh with a non-empty position attribute, the mesh gets that result, moved
  into its own frame by the inverse of its world matrix and passed through
  \<^verbatim>\<open>mergeVertices\<close> when that does not throw; it is made visible and its old geometry is
  disposed; the polygon clipper does not occur in this value. If the intersection throws or
  returns an empty position attribute, the polygon clipper runs on the old geometry with the
  inverse of the box matrix and the half-extents \<open>size / 2 + eps\<close>: its geometry is installed
  in the same way, or the mesh is hidden, its geometry kept and nothing disposed, when the
  clipper returns null. A run of the crop effect that passes its guards replaces every node
  of the scene by the result of this step and calls, in this order, \<^verbatim>\<open>onApplyStart\<close>,
  \<^verbatim>\<open>onCropBounds\<close> and \<^verbatim>\<open>onApplied\<close> and nothing else, whether or not the intersection
  threw; the crop effect never calls the error callback.
\<close>

theorem csg_first_then_fallback:
  "(isMesh child \<and> \<not> isSkinnedMesh child \<and> geometry child = Some g \<longrightarrow>
      (\<forall>r. CSG_intersect lib (geom_applyMatrix4 (matrixWorld child) g)
               (geom_applyMatrix4 boxMW boxGeo) = CsgReturns r \<and> geom_position r \<noteq> [] \<longrightarrow>
            cropChild lib boxGeo boxMW boxSize eps child dis =
              (child\<lparr> geometry :=
                        Some (case mergeVertices lib (geom_applyMatrix4 (invert (matrixWorld child)) r) of
                                Some merged \<Rightarrow> merged
                              | None \<Rightarrow> geom_applyMatrix4 (invert (matrixWorld child)) r),
                      visible := True \<rparr>,
               dis @ [g]))
      \<and> (CSG_intersect lib (geom_applyMatrix4 (matrixWorld child) g)
               (geom_applyMatrix4 boxMW boxGeo) = CsgThrows
          \<or> (\<exists>r. CSG_intersect lib (geom_applyMatrix4 (matrixWorld child) g)
               (geom_applyMatrix4 boxMW boxGeo) = CsgReturns r \<and> geom_position r = []) \<longrightarrow>
            cropChild lib boxGeo boxMW boxSize eps child dis =
              (case clipMeshKeepInside g (matrixWorld child) (invert boxMW)
                      (Vector3 (nadd (nmul (x3 boxSize) (Fin (1 / 2))) eps)
                               (nadd (nmul (y3 boxSize) (Fin (1 / 2))) eps)
                               (nadd (nmul (z3 boxSize) (Fin (1 / 2))) eps)) of
                 Some newGeom \<Rightarrow>
                   (child\<lparr> geometry :=
                             Some (case mergeVertices lib newGeom of
                                     Some merged \<Rightarrow> merged | None \<Rightarrow> newGeom),
                           visible := True \<rparr>,
                    dis @ [g])
               | None \<Rightarrow> (child\<lparr> visible := False \<rparr>, dis))))
   \<and> (applyCropToken props \<noteq> 0 \<and> sceneObject st = Some nodes \<and> cropEnabled props
        \<and> crop props = Some c
        \<and> \<not> (nle (x3 (crop_size c)) (Fin 0) \<or> nle (y3 (crop_size c)) (Fin 0)
               \<or> nle (z3 (crop_size c)) (Fin 0)) \<longrightarrow>
        sceneObject (applyCrop lib props st) =
          Some (map (\<lambda>node. fst (cropChild lib (crop_boxGeo lib c) (crop_boxMatrix lib props st c)
                                     (crop_size c) (crop_eps c) node [])) nodes)
        \<and> events (applyCrop lib props st) =
            events st @ [ApplyStart,
              CropBounds (setFromObject lib (map (\<lambda>node. fst (cropChild lib (crop_boxGeo lib c)
                  (crop_boxMatrix lib props st c) (crop_size c) (crop_eps c) node [])) nodes)),
              Applied (setFromObject lib (map (\<lambda>node. fst (cropChild lib (crop_boxGeo lib c)
                  (crop_boxMatrix lib props st c) (crop_size c) (crop_eps c) node [])) nodes))])
   \<and> (\<forall>msg. Error msg \<in> set (events (applyCrop lib props st)) \<longrightarrow> Error msg \<in> set (events st))"
proof (intro conjI)
  show "isMesh child \<and> \<not> isSkinnedMesh child \<and> geometry child = Some g \<longrightarrow>
      (\<forall>r. CSG_intersect lib (geom_applyMatrix4 (matrixWorld child) g)
               (geom_applyMatrix4 boxMW boxGeo) = CsgReturns r \<and> geom_position r \<noteq> [] \<longrightarrow>
            cropChild lib boxGeo boxMW boxSize eps child dis =
              (child\<lparr> geometry :=
                        Some (case mergeVertices lib (geom_applyMatrix4 (invert (matrixWorld child)) r) of
                                Some merged \<Rightarrow> merged
                              | None \<Rightarrow> geom_applyMatrix4 (invert (matrixWorld child)) r),
                      visible := True \<rparr>,
               dis @ [g]))
      \<and> (CSG_intersect lib (geom_applyMatrix4 (matrixWorld child) g)
               (geom_applyMatrix4 boxMW boxGeo) = CsgThrows
          \<or> (\<exists>r. CSG_intersect lib (geom_applyMatrix4 (matrixWorld child) g)
               (geom_applyMatrix4 boxMW boxGeo) = CsgReturns r \<and> geom_position r = []) \<longrightarrow>
            cropChild lib boxGeo boxMW boxSize eps child dis =
              (case clipMeshKeepInside g (matrixWorld child) (invert boxMW)
                      (Vector3 (nadd (nmul (x3 boxSize) (Fin (1 / 2))) eps)
                               (nadd (nmul (y3 boxSize) (Fin (1 / 2))) eps)
                               (nadd (nmul (z3 boxSize) (Fin (1 / 2))) eps)) of
                 Some newGeom \<Rightarrow>
                   (child\<lparr> geometry :=
                             Some (case mergeVertices lib newGeom of
                                     Some merged \<Rightarrow> merged | None \<Rightarrow> newGeom),
                           visible := True \<rparr>,
                    dis @ [g])
               | None \<Rightarrow> (child\<lparr> visible := False \<rparr>, dis)))"
    by (auto simp: cropChild_def fallback_def commit_def Let_def split: option.splits)
  show "applyCropToken props \<noteq> 0 \<and> sceneObject st = Some nodes \<and> cropEnabled props
        \<and> crop props = Some c
        \<and> \<not> (nle (x3 (crop_size c)) (Fin 0) \<or> nle (y3 (crop_size c)) (Fin 0)
               \<or> nle (z3 (crop_size c)) (Fin 0)) \<longrightarrow>
        sceneObject (applyCrop lib props st) =
          Some (map (\<lambda>node. fst (cropChild lib (crop_boxGeo lib c) (crop_boxMatrix lib props st c)
                                     (crop_size c) (crop_eps c) node [])) nodes)
        \<and> events (applyCrop lib props st) =
            events st @ [ApplyStart,
              CropBounds (setFromObject lib (map (\<lambda>node. fst (cropChild lib (crop_boxGeo lib c)
                  (crop_boxMatrix lib props st c) (crop_size c) (crop_eps c) node [])) nodes)),
              Applied (setFromObject lib (map (\<lambda>node. fst (cropChild lib (crop_boxGeo lib c)
                  (crop_boxMatrix lib props st c) (crop_size c) (crop_eps c) node [])) nodes))]"
    using applyCrop_applied [of props st nodes c lib] by blast
  show "\<forall>msg. Error msg \<in> set (events (applyCrop lib props st)) \<longrightarrow> Error msg \<in> set (events st)"
    by (auto simp: applyCrop_def Let_def split: option.splits prod.splits)
qed

theorem csg_first_then_fallback_witness:
  "isMesh hidden_mesh \<and> \<not> isSkinnedMesh hidden_mesh \<and> geometry hidden_mesh = Some tri_geom
   \<and> \<not> visible hidden_mesh
   \<and> cropChild lib_csg_returns empty_geom identity4 unit_size (Fin (1 / 100000)) hidden_mesh []
       = (hidden_mesh\<lparr> geometry := Some cut_local, visible := True \<rparr>, [tri_geom])
   \<and> cropChild lib_csg_throws empty_geom far_box unit_size (Fin (1 / 100000)) tri_mesh []
       = (tri_mesh\<lparr> visible := False \<rparr>, [])
   \<and> cropChild lib_csg_throws empty_geom identity4 (Vector3 (Fin 2) (Fin 2) (Fin 2)) (Fin 0)
         (hidden_mesh\<lparr> matrixWorld := identity4 \<rparr>) []
       = (hidden_mesh\<lparr> matrixWorld := identity4, visible := True \<rparr>, [tri_geom])
   \<and> sceneObject (applyCrop lib_csg_returns unit_crop hidden_mesh_viewer)
       = Some [hidden_mesh\<lparr> geometry := Some cut_local, visible := True \<rparr>]
   \<and> events (applyCrop lib_csg_returns unit_crop hidden_mesh_viewer)
       = [ApplyStart, CropBounds emptyBox, Applied emptyBox]
   \<and> sceneObject (applyCrop lib_csg_throws far_crop one_mesh_viewer)
       = Some [tri_mesh\<lparr> visible := False \<rparr>]
   \<and> events (applyCrop lib_csg_throws far_crop one_mesh_viewer)
       = [ApplyStart, CropBounds emptyBox, Applied emptyBox]"
proof -
  have a: "cropChild lib_csg_returns boxGeo boxMW boxSize eps hidden_mesh []
       = (hidden_mesh\<lparr> geometry := Some cut_local, visible := True \<rparr>, [tri_geom])"
    for boxGeo boxMW boxSize eps
    using csg_first_then_fallback [of hidden_mesh tri_geom lib_csg_returns boxMW boxGeo
        boxSize eps "[]", THEN conjunct1, rule_format, THEN conjunct1, rule_format, of cut_geom]
      cut_to_local
    by (simp add: hidden_mesh_def lib_csg_returns_def lib_csg_throws_def cut_geom_def)
  have b: "cropChild lib_csg_throws empty_geom far_box unit_size (Fin (1 / 100000)) tri_mesh []
       = (tri_mesh\<lparr> visible := False \<rparr>, [])"
    using csg_first_then_fallback [of tri_mesh tri_geom lib_csg_throws far_box empty_geom
        unit_size "Fin (1 / 100000)" "[]", THEN conjunct1, rule_format, THEN conjunct2, rule_format]
      far_clip
    by (simp add: tri_mesh_def lib_csg_throws_def)
  have k: "clipMeshKeepInside tri_geom identity4 (invert identity4)
             (Vector3 (nadd (nmul (Fin 2) (Fin (1 / 2))) (Fin 0))
                      (nadd (nmul (Fin 2) (Fin (1 / 2))) (Fin 0))
                      (nadd (nmul (Fin 2) (Fin (1 / 2))) (Fin 0))) = Some tri_geom"
    using tri_geom_kept by (simp add: invert_def identity4_def unit_half_def)
  have c: "cropChild lib_csg_throws empty_geom identity4 (Vector3 (Fin 2) (Fin 2) (Fin 2)) (Fin 0)
         (hidden_mesh\<lparr> matrixWorld := identity4 \<rparr>) []
       = (hidden_mesh\<lparr> matrixWorld := identity4, visible := True \<rparr>, [tri_geom])"
    using csg_first_then_fallback [of "hidden_mesh\<lparr> matrixWorld := identity4 \<rparr>" tri_geom
        lib_csg_throws identity4 empty_geom "Vector3 (Fin 2) (Fin 2) (Fin 2)" "Fin 0" "[]",
        THEN conjunct1, rule_format, THEN conjunct2, rule_format] k
    by (simp add: hidden_mesh_def lib_csg_throws_def)
  note L = csg_first_then_fallback [of hidden_mesh tri_geom lib_csg_returns identity4 empty_geom
      unit_size "Fin 0" "[]" unit_crop hidden_mesh_viewer "[hidden_mesh]"
      "\<lparr> minX = Fin 0, maxX = Fin 2, minY = Fin (- 1), maxY = Fin 1, minZ = Fin (- 1), maxZ = Fin 1 \<rparr>",
      THEN conjunct2, THEN conjunct1, rule_format]
  have pre: "applyCropToken unit_crop \<noteq> 0 \<and> sceneObject hidden_mesh_viewer = Some [hidden_mesh]
      \<and> cropEnabled unit_crop
      \<and> crop unit_crop = Some \<lparr> minX = Fin 0, maxX = Fin 2, minY = Fin (- 1), maxY = Fin 1,
                                minZ = Fin (- 1), maxZ = Fin 1 \<rparr>
      \<and> \<not> (nle (x3 (crop_size \<lparr> minX = Fin 0, maxX = Fin 2, minY = Fin (- 1), maxY = Fin 1,
                                minZ = Fin (- 1), maxZ = Fin 1 \<rparr>)) (Fin 0)
           \<or> nle (y3 (crop_size \<lparr> minX = Fin 0, maxX = Fin 2, minY = Fin (- 1), maxY = Fin 1,
                                minZ = Fin (- 1), maxZ = Fin 1 \<rparr>)) (Fin 0)
           \<or> nle (z3 (crop_size \<lparr> minX = Fin 0, maxX = Fin 2, minY = Fin (- 1), maxY = Fin 1,
                                minZ = Fin (- 1), maxZ = Fin 1 \<rparr>)) (Fin 0))"
    by (simp add: unit_crop_def hidden_mesh_viewer_def crop_size_def)
  have s: "sceneObject (applyCrop lib_csg_returns unit_crop hidden_mesh_viewer)
       = Some [hidden_mesh\<lparr> geometry := Some cut_local, visible := True \<rparr>]"
    using L [OF pre, THEN conjunct1] by (simp add: a)
  have e: "events (applyCrop lib_csg_returns unit_crop hidden_mesh_viewer)
       = [ApplyStart, CropBounds emptyBox, Applied emptyBox]"
    using L [OF pre, THEN conjunct2]
    by (simp add: hidden_mesh_viewer_def lib_csg_returns_def lib_csg_throws_def)
  note F = csg_first_then_fallback [of tri_mesh tri_geom lib_csg_throws identity4 empty_geom
      unit_size "Fin 0" "[]" far_crop one_mesh_viewer "[tri_mesh]" far_region,
      THEN conjunct2, THEN conjunct1, rule_format]
  have pre': "applyCropToken far_crop \<noteq> 0 \<and> sceneObject one_mesh_viewer = Some [tri_mesh]
      \<and> cropEnabled far_crop \<and> crop far_crop = Some far_region
      \<and> \<not> (nle (x3 (crop_size far_region)) (Fin 0) \<or> nle (y3 (crop_size far_region)) (Fin 0)
           \<or> nle (z3 (crop_size far_region)) (Fin 0))"
    by (simp add: far_region_eval unit_size_def) (simp add: far_crop_def one_mesh_viewer_def)
  have t: "sceneObject (applyCrop lib_csg_throws far_crop one_mesh_viewer)
       = Some [tri_mesh\<lparr> visible := False \<rparr>]
     \<and> events (applyCrop lib_csg_throws far_crop one_mesh_viewer)
       = [ApplyStart, CropBounds emptyBox, Applied emptyBox]"
    using F [OF pre'] by (simp add: far_region_eval b) (simp add: one_mesh_viewer_def lib_csg_throws_def)
  show ?thesis
    using a [of empty_geom identity4 unit_size "Fin (1 / 100000)"] b c s e t
    by (simp add: hidden_mesh_def)
qed

text \<open>
  C10. \<^verbatim>\<open>clipMeshKeepInside\<close> returns null exactly when no triangle survives. A returned
  geometry is non-indexed, its position array holds the nine coordinates of each surviving
  triangle, so that its vertex count is three times the positive number of survivors, and it
  has a uv attribute exactly when the source geometry has one. This holds for every
  position array, also one whose length is not a multiple of 9: the coordinates that the
  last triangle reads past the end of the array are 0.
\<close>

theorem clipMeshKeepInside_result:
  assumes "src = (if geom_index geom \<noteq> None then toNonIndexed geom else geom)"
  shows "(clipMeshKeepInside geom M B half = None \<longleftrightarrow> surviving M B half src = [])
   \<and> (\<forall>res. clipMeshKeepInside geom M B half = Some res \<longrightarrow>
        geom_index res = None
        \<and> geom_position res = concat (map (tri_positions (invert M)) (surviving M B half src))
        \<and> length (geom_position res) = 3 * (3 * length (surviving M B half src))
        \<and> 0 < length (surviving M B half src)
        \<and> (geom_uv res \<noteq> None \<longleftrightarrow> geom_uv geom \<noteq> None))"
proof -
  have u: "geom_uv src = None \<longleftrightarrow> geom_uv geom = None"
    by (simp add: assms toNonIndexed_uv)
  have e: "concat (map (tri_positions (invert M)) (surviving M B half src)) = []
      \<longleftrightarrow> surviving M B half src = []"
    using length_concat_tri_positions [of "invert M" "surviving M B half src"]
    by (metis length_0_conv mult_is_0 zero_neq_numeral)
  have run: "clipMeshKeepInside geom M B half =
      (if surviving M B half src = [] then None
       else Some \<lparr> geom_index = None,
              geom_position = concat (map (tri_positions (invert M)) (surviving M B half src)),
              geom_uv = (if geom_uv src \<noteq> None
                         then Some (concat (map tri_uvs (surviving M B half src))) else None) \<rparr>)"
    unfolding clipMeshKeepInside_def Let_def assms [symmetric] triangles_loop_surviving
    using e by simp
  show ?thesis
    unfolding run using u by (auto simp: length_concat_tri_positions)
qed

theorem clipMeshKeepInside_result_witness:
  "tri_geom = (if geom_index tri_geom \<noteq> None then toNonIndexed tri_geom else tri_geom)
   \<and> clipMeshKeepInside tri_geom identity4 identity4 unit_half = Some tri_geom
   \<and> geom_index tri_geom = None
   \<and> length (geom_position tri_geom) = 3 * (3 * 1)
   \<and> geom_uv tri_geom \<noteq> None
   \<and> short_geom = (if geom_index short_geom \<noteq> None then toNonIndexed short_geom else short_geom)
   \<and> length (geom_position short_geom) = 6
   \<and> clipMeshKeepInside short_geom identity4 identity4 unit_half = Some padded_geom
   \<and> geom_position padded_geom = [Fin 1, Fin 0, Fin 0, Fin 0, Fin 1, Fin 0, Fin 0, Fin 0, Fin 0]
   \<and> geom_uv padded_geom = None \<and> geom_uv short_geom = None
   \<and> clipMeshKeepInside straddle_geom identity4 identity4 unit_half = None
   \<and> surviving identity4 identity4 unit_half straddle_geom = []"
proof -
  have s: "tri_geom = (if geom_index tri_geom \<noteq> None then toNonIndexed tri_geom else tri_geom)"
    by (simp add: tri_geom_def)
  note R = clipMeshKeepInside_result [OF s, of identity4 identity4 unit_half, THEN conjunct2,
      rule_format, OF tri_geom_kept]
  from R have a: "geom_index tri_geom = None" by blast
  from R have b: "length (geom_position tri_geom) =
      3 * (3 * length (surviving identity4 identity4 unit_half tri_geom))" by blast
  have c: "geom_uv tri_geom \<noteq> None" by (simp add: tri_geom_def)
  from b have d: "length (geom_position tri_geom) = 3 * (3 * 1)"
    by (simp add: tri_geom_survivors)
  have s2: "short_geom = (if geom_index short_geom \<noteq> None then toNonIndexed short_geom else short_geom)"
    by (simp add: short_geom_def)
  note Q = clipMeshKeepInside_result [OF s2, of identity4 identity4 unit_half, THEN conjunct2,
      rule_format, OF short_geom_kept]
  from Q have "geom_position padded_geom =
      concat (map (tri_positions (invert identity4)) (surviving identity4 identity4 unit_half short_geom))"
    by blast
  then have e: "geom_position padded_geom
      = [Fin 1, Fin 0, Fin 0, Fin 0, Fin 1, Fin 0, Fin 0, Fin 0, Fin 0]"
    by (simp add: padded_geom_def)
  from Q have f: "geom_uv padded_geom \<noteq> None \<longleftrightarrow> geom_uv short_geom \<noteq> None" by blast
  have g: "geom_uv short_geom = None" "length (geom_position short_geom) = 6"
    by (simp_all add: short_geom_def)
  have s3: "straddle_geom = (if geom_index straddle_geom \<noteq> None then toNonIndexed straddle_geom else straddle_geom)"
    by (simp add: straddle_geom_def)
  note N = clipMeshKeepInside_result [OF s3, of identity4 identity4 unit_half, THEN conjunct1]
  from N straddle_dropped have n: "surviving identity4 identity4 unit_half straddle_geom = []"
    by blast
  from s a c d s2 e f g n straddle_dropped tri_geom_kept short_geom_kept show ?thesis
    by blast
qed

end
